theory Spec2Isabelle
  imports Main "HOL-Library.Code_Target_Nat"
begin

section \<open>Strings\<close>

text \<open>
  A Python \<open>str\<close> is a sequence of Unicode code points. The messages of
  \<open>database_corrector.py\<close> are Russian, so a string is modelled as the list of its code
  points; ASCII text is written through \<open>ascii\<close>.
\<close>

type_synonym ustr = "nat list"

definition ascii :: "string \<Rightarrow> ustr" where
  "ascii s = map of_char s"

definition sp :: nat where \<comment> \<open>the space character\<close>
  "sp = 0x20"

definition nl :: nat where \<comment> \<open>the newline character\<close>
  "nl = 0x0A"

text \<open>\<open>sep.join(xs)\<close>\<close>

fun join :: "ustr \<Rightarrow> ustr list \<Rightarrow> ustr" where
  "join sep [] = []"
| "join sep [x] = x"
| "join sep (x # y # ys) = x @ sep @ join sep (y # ys)"

text \<open>Words separated by single spaces, as the f-strings of the source lay them out.\<close>

definition spaced :: "ustr list \<Rightarrow> ustr" where
  "spaced ws = join [sp] ws"

text \<open>\<open>p in s\<close> on strings: \<open>p\<close> occurs in \<open>s\<close> as a contiguous substring.\<close>

fun py_in :: "ustr \<Rightarrow> ustr \<Rightarrow> bool" where
  "py_in p [] = (p = [])"
| "py_in p (c # cs) = (take (length p) (c # cs) = p \<or> py_in p cs)"

text \<open>\<open>s.split(" ")\<close>: cut at every single space, keeping empty pieces.\<close>

fun split_space :: "ustr \<Rightarrow> ustr list" where
  "split_space [] = [[]]"
| "split_space (c # cs) =
     (if c = sp then [] # split_space cs
      else (case split_space cs of [] \<Rightarrow> [[c]] | w # ws \<Rightarrow> (c # w) # ws))"

subsection \<open>The words of the messages\<close>

definition w_Dobavlena :: ustr where \<comment> \<open>Dobavlena, 'added' (feminine), capitalised\<close>
  "w_Dobavlena = [0x414, 0x43E, 0x431, 0x430, 0x432, 0x43B, 0x435, 0x43D, 0x430]"

definition w_Otsutstvuet_cap :: ustr where \<comment> \<open>Otsutstvuet, 'is missing', capitalised\<close>
  "w_Otsutstvuet_cap = [0x41E, 0x442, 0x441, 0x443, 0x442, 0x441, 0x442, 0x432, 0x443, 0x435, 0x442]"

definition w_otsutstvuet :: ustr where \<comment> \<open>otsutstvuet, 'is missing', lower case\<close>
  "w_otsutstvuet = [0x43E, 0x442, 0x441, 0x443, 0x442, 0x441, 0x442, 0x432, 0x443, 0x435, 0x442]"

definition w_tablitsa :: ustr where \<comment> \<open>tablitsa, 'table' (nominative)\<close>
  "w_tablitsa = [0x442, 0x430, 0x431, 0x43B, 0x438, 0x446, 0x430]"

definition w_Tablitsa :: ustr where \<comment> \<open>Tablitsa, 'table', capitalised\<close>
  "w_Tablitsa = [0x422, 0x430, 0x431, 0x43B, 0x438, 0x446, 0x430]"

definition w_tablitse :: ustr where \<comment> \<open>tablitse, 'table' (prepositional)\<close>
  "w_tablitse = [0x442, 0x430, 0x431, 0x43B, 0x438, 0x446, 0x435]"

definition w_tablitsu :: ustr where \<comment> \<open>tablitsu, 'table' (accusative)\<close>
  "w_tablitsu = [0x442, 0x430, 0x431, 0x43B, 0x438, 0x446, 0x443]"

definition w_kolonka :: ustr where \<comment> \<open>kolonka, 'column'\<close>
  "w_kolonka = [0x43A, 0x43E, 0x43B, 0x43E, 0x43D, 0x43A, 0x430]"

definition w_Kolonka :: ustr where \<comment> \<open>Kolonka, 'column', capitalised\<close>
  "w_Kolonka = [0x41A, 0x43E, 0x43B, 0x43E, 0x43D, 0x43A, 0x430]"

definition w_indeks :: ustr where \<comment> \<open>indeks, 'index'\<close>
  "w_indeks = [0x438, 0x43D, 0x434, 0x435, 0x43A, 0x441]"

definition w_Indeks :: ustr where \<comment> \<open>Indeks, 'index', capitalised\<close>
  "w_Indeks = [0x418, 0x43D, 0x434, 0x435, 0x43A, 0x441]"

definition w_V :: ustr where \<comment> \<open>V, 'in', capitalised\<close>
  "w_V = [0x412]"

definition w_v :: ustr where \<comment> \<open>v, 'in'\<close>
  "w_v = [0x432]"

definition w_Korrektiruem :: ustr where \<comment> \<open>Korrektiruem:, 'correcting:' (with the colon)\<close>
  "w_Korrektiruem = [0x41A, 0x43E, 0x440, 0x440, 0x435, 0x43A, 0x442, 0x438, 0x440, 0x443, 0x435, 0x43C, 0x3A]"

definition w_Korrektirovka :: ustr where \<comment> \<open>Korrektirovka, 'correction'\<close>
  "w_Korrektirovka = [0x41A, 0x43E, 0x440, 0x440, 0x435, 0x43A, 0x442, 0x438, 0x440, 0x43E, 0x432, 0x43A, 0x430]"

definition w_zavershena :: ustr where \<comment> \<open>zavershena, 'finished'\<close>
  "w_zavershena = [0x437, 0x430, 0x432, 0x435, 0x440, 0x448, 0x435, 0x43D, 0x430]"

definition w_ne :: ustr where \<comment> \<open>ne, 'not'\<close>
  "w_ne = [0x43D, 0x435]"

definition w_naidena :: ustr where \<comment> \<open>naidena, 'found' (feminine)\<close>
  "w_naidena = [0x43D, 0x430, 0x439, 0x434, 0x435, 0x43D, 0x430]"

definition w_naiden :: ustr where \<comment> \<open>naiden, 'found' (masculine)\<close>
  "w_naiden = [0x43D, 0x430, 0x439, 0x434, 0x435, 0x43D]"

definition w_iskhodnoi :: ustr where \<comment> \<open>iskhodnoi, 'source' (adjective)\<close>
  "w_iskhodnoi = [0x438, 0x441, 0x445, 0x43E, 0x434, 0x43D, 0x43E, 0x439]"

definition w_baze :: ustr where \<comment> \<open>baze, 'base'\<close>
  "w_baze = [0x431, 0x430, 0x437, 0x435]"

definition w_dannykh :: ustr where \<comment> \<open>dannykh, 'of data'\<close>
  "w_dannykh = [0x434, 0x430, 0x43D, 0x43D, 0x44B, 0x445]"

definition w_dobavlena :: ustr where \<comment> \<open>dobavlena, 'added' (feminine)\<close>
  "w_dobavlena = [0x434, 0x43E, 0x431, 0x430, 0x432, 0x43B, 0x435, 0x43D, 0x430]"

definition w_dobavlen :: ustr where \<comment> \<open>dobavlen, 'added' (masculine)\<close>
  "w_dobavlen = [0x434, 0x43E, 0x431, 0x430, 0x432, 0x43B, 0x435, 0x43D]"

definition w_sozdana :: ustr where \<comment> \<open>sozdana, 'created'\<close>
  "w_sozdana = [0x441, 0x43E, 0x437, 0x434, 0x430, 0x43D, 0x430]"

section \<open>Data model\<close>

text \<open>
  The program works on two databases through objects of the SQLAlchemy library: an
  inspector to read a schema, an engine to open a transaction and send statements.
  The library is not part of the program. What its objects answer is a parameter of the
  model, wide enough for what the library does and for what the program expects of it:
  \<open>get_table\<close> answers with a table, with \<open>None\<close> for a table that is not there, or
  raises (an inspector that has no method of that name raises \<open>AttributeError\<close> on every
  call); entering \<open>async with engine.begin()\<close> raises, or gives a block that commits when
  left normally and rolls back when left by an exception.
\<close>

text \<open>
  What the source reads of a table object: \<open>table.columns\<close> (each with \<open>name\<close> and
  \<open>type\<close>) and \<open>table.indexes\<close> (each with \<open>name\<close> and \<open>columns\<close>). An index also
  carries the uniqueness flag of the schema model; the source never reads it.
\<close>

record column =
  col_name :: ustr
  col_type :: ustr

record index =
  idx_name :: ustr
  idx_columns :: "column list"
  idx_unique :: bool

record table =
  columns :: "column list"
  indexes :: "index list"

datatype error =
    OperationalError
  | ProgrammingError
  | AttributeError
  | IndexError
  | ValueError
  | TypeError
  | ArgumentError

text \<open>
  The inspector of a database, as the source uses it: \<open>get_table_names()\<close> lists the
  tables, \<open>get_table(name)\<close> returns the table, returns \<open>None\<close> or raises. The state of a
  database, as far as this program can see it, is what its inspector answers.
\<close>

record inspector =
  get_table_names :: "ustr list"
  get_table :: "ustr \<Rightarrow> error + table option"

text \<open>
  A statement sent to the target: raw SQL text (\<open>conn.execute(text(...))\<close>) or the
  creation of a table object (\<open>new_table.create(sync_conn)\<close>).
\<close>

datatype statement =
    Text ustr
  | CreateTable ustr "column list" "index list"

text \<open>
  The target database system and the engine in front of it are a parameter: how the
  target answers a statement in a given state, how its dialect renders a column
  (\<open>col.compile(dialect=...)\<close>), and what entering \<open>async with engine.begin()\<close> does:
  \<open>None\<close> when the block is entered, \<open>Some e\<close> when entering raises \<open>e\<close>.
\<close>

record dbms =
  execute :: "statement \<Rightarrow> inspector \<Rightarrow> error + inspector"
  compile_column :: "column \<Rightarrow> ustr"
  async_with_begin :: "error option"

text \<open>
  \<open>__init__\<close> makes its engines with \<open>create_engine\<close>, which gives a synchronous engine:
  its \<open>begin()\<close> is not an asynchronous context manager, and entering
  \<open>async with self.target_engine.begin()\<close> raises \<open>TypeError\<close>.
\<close>

definition synchronous :: "dbms \<Rightarrow> bool" where
  "synchronous db \<longleftrightarrow> async_with_begin db = Some TypeError"

text \<open>What a run does that can be observed: lines printed and the traffic with the target.\<close>

datatype event =
    Print ustr
  | Begin
  | Execute statement
  | Commit
  | Rollback

datatype metadata_obj = MetaData

text \<open>
  The object \<open>self\<close>. An engine stands for the database it is connected to. The attribute
  \<open>metadata\<close> is \<open>None\<close> while the object has no such attribute.
\<close>

record corrector =
  source_engine :: inspector
  target_engine :: inspector
  metadata :: "metadata_obj option"

text \<open>\<open>__init__\<close> (lines 9-11) sets the two engines and nothing else.\<close>

definition init :: "inspector \<Rightarrow> inspector \<Rightarrow> corrector" where
  "init source target = \<lparr>source_engine = source, target_engine = target, metadata = None\<rparr>"

type_synonym outcome = "(error + unit) \<times> corrector \<times> event list"

section \<open>Messages\<close>

definition msg_table_added :: "ustr \<Rightarrow> ustr" where
  "msg_table_added table_name = spaced [w_Dobavlena, w_tablitsa, table_name]"

definition msg_table_missing :: "ustr \<Rightarrow> ustr" where
  "msg_table_missing table_name = spaced [w_Otsutstvuet_cap, w_tablitsa, table_name]"

definition msg_column_missing :: "ustr \<Rightarrow> ustr \<Rightarrow> ustr" where
  "msg_column_missing table_name cname =
     spaced [w_V, w_tablitse, table_name, w_otsutstvuet, w_kolonka, cname]"

definition msg_index_missing :: "ustr \<Rightarrow> ustr \<Rightarrow> ustr" where
  "msg_index_missing table_name iname =
     spaced [w_V, w_tablitse, table_name, w_otsutstvuet, w_indeks, iname]"

definition msg_correcting :: "ustr \<Rightarrow> ustr" where
  "msg_correcting diff = spaced [w_Korrektiruem, diff]"

definition msg_finished :: ustr where
  "msg_finished = spaced [w_Korrektirovka, w_zavershena]"

definition msg_table_not_found :: "ustr \<Rightarrow> ustr" where
  "msg_table_not_found table_name =
     spaced [w_Tablitsa, table_name, w_ne, w_naidena, w_v, w_iskhodnoi, w_baze, w_dannykh]"

definition msg_table_added_done :: "ustr \<Rightarrow> ustr" where
  "msg_table_added_done table_name = spaced [w_Tablitsa, table_name, w_dobavlena]"

definition msg_table_created_done :: "ustr \<Rightarrow> ustr" where
  "msg_table_created_done table_name = spaced [w_Tablitsa, table_name, w_sozdana]"

definition msg_column_not_found :: "ustr \<Rightarrow> ustr \<Rightarrow> ustr" where
  "msg_column_not_found cname table_name =
     spaced [w_Kolonka, cname, w_ne, w_naidena, w_v, w_tablitse, table_name]"

definition msg_column_added_done :: "ustr \<Rightarrow> ustr \<Rightarrow> ustr" where
  "msg_column_added_done cname table_name =
     spaced [w_Kolonka, cname, w_dobavlena, w_v, w_tablitsu, table_name]"

definition msg_index_not_found :: "ustr \<Rightarrow> ustr \<Rightarrow> ustr" where
  "msg_index_not_found iname table_name =
     spaced [w_Indeks, iname, w_ne, w_naiden, w_v, w_tablitse, table_name]"

definition msg_index_added_done :: "ustr \<Rightarrow> ustr \<Rightarrow> ustr" where
  "msg_index_added_done iname table_name =
     spaced [w_Indeks, iname, w_dobavlen, w_v, w_tablitsu, table_name]"

text \<open>The four substrings \<open>correct_schema\<close> looks for (lines 53, 56, 59, 62).\<close>

definition pat_table_added :: ustr where
  "pat_table_added = spaced [w_Dobavlena, w_tablitsa]"

definition pat_table_missing :: ustr where
  "pat_table_missing = spaced [w_Otsutstvuet_cap, w_tablitsa]"

definition pat_column_missing :: ustr where
  "pat_column_missing = spaced [w_otsutstvuet, w_kolonka]"

definition pat_index_missing :: ustr where
  "pat_index_missing = spaced [w_otsutstvuet, w_indeks]"

section \<open>The comparison: \<open>compare_schemas\<close> (lines 13-47)\<close>

definition missing_columns :: "ustr \<Rightarrow> table \<Rightarrow> table \<Rightarrow> ustr list" where
  "missing_columns table_name source_table target_table =
     map (\<lambda>col. msg_column_missing table_name (col_name col))
       (filter (\<lambda>col. col_name col \<notin> set (map col_name (columns target_table)))
          (columns source_table))"

definition missing_indexes :: "ustr \<Rightarrow> table \<Rightarrow> table \<Rightarrow> ustr list" where
  "missing_indexes table_name source_table target_table =
     map (\<lambda>idx. msg_index_missing table_name (idx_name idx))
       (filter (\<lambda>idx. idx_name idx \<notin> set (map idx_name (indexes target_table)))
          (indexes source_table))"

text \<open>
  The body of the \<open>try\<close> for one table name (lines 22-44): an error of either
  \<open>get_table\<close> leaves it before anything is appended.
\<close>

definition compare_table :: "inspector \<Rightarrow> inspector \<Rightarrow> ustr \<Rightarrow> error + ustr list" where
  "compare_table source_inspector target_inspector table_name =
     (case get_table source_inspector table_name of
        Inl e \<Rightarrow> Inl e
      | Inr source_table \<Rightarrow>
          (case get_table target_inspector table_name of
             Inl e \<Rightarrow> Inl e
           | Inr target_table \<Rightarrow>
               (case source_table of
                  None \<Rightarrow> Inr [msg_table_added table_name]
                | Some st \<Rightarrow>
                    (case target_table of
                       None \<Rightarrow> Inr [msg_table_missing table_name]
                     | Some tt \<Rightarrow>
                         Inr (missing_columns table_name st tt
                              @ missing_indexes table_name st tt)))))"

text \<open>
  The loop over the table names. \<open>except OperationalError: continue\<close> goes on with the
  next name; any other error leaves \<open>compare_schemas\<close>.
\<close>

fun compare_loop :: "inspector \<Rightarrow> inspector \<Rightarrow> ustr list \<Rightarrow> error + ustr list" where
  "compare_loop source_inspector target_inspector [] = Inr []"
| "compare_loop source_inspector target_inspector (table_name # rest) =
     (case compare_table source_inspector target_inspector table_name of
        Inl OperationalError \<Rightarrow> compare_loop source_inspector target_inspector rest
      | Inl e \<Rightarrow> Inl e
      | Inr ds \<Rightarrow>
          (case compare_loop source_inspector target_inspector rest of
             Inl e \<Rightarrow> Inl e
           | Inr ds' \<Rightarrow> Inr (ds @ ds')))"

text \<open>
  The loop runs over \<open>set(source names) | set(target names)\<close>, whose iteration order
  Python does not fix. The order is the parameter \<open>names\<close>: any list that
  \<open>iteration_order\<close> accepts.
\<close>

definition iteration_order :: "inspector \<Rightarrow> inspector \<Rightarrow> ustr list \<Rightarrow> bool" where
  "iteration_order source_inspector target_inspector names \<longleftrightarrow>
     distinct names \<and>
     set names = set (get_table_names source_inspector) \<union> set (get_table_names target_inspector)"

definition compare_schemas :: "ustr list \<Rightarrow> corrector \<Rightarrow> error + ustr list" where
  "compare_schemas names self = compare_loop (source_engine self) (target_engine self) names"

section \<open>The corrective operations (lines 67-134)\<close>

text \<open>
  \<open>async with self.target_engine.begin() as conn\<close> around one statement. When entering
  the block raises, nothing has been sent and the error goes on to the caller. When the
  block is entered, the transaction is committed when the block ends normally, rolled
  back when the statement raises, and the error goes on to the caller.
\<close>

definition transaction :: "dbms \<Rightarrow> statement \<Rightarrow> corrector \<Rightarrow> outcome" where
  "transaction db stmt self =
     (case async_with_begin db of
        Some e \<Rightarrow> (Inl e, self, [])
      | None \<Rightarrow>
          (case execute db stmt (target_engine self) of
             Inl e \<Rightarrow> (Inl e, self, [Begin, Execute stmt, Rollback])
           | Inr target' \<Rightarrow>
               (Inr (), self\<lparr>target_engine := target'\<rparr>, [Begin, Execute stmt, Commit])))"

text \<open>\<open>print(msg)\<close> after an operation that returned normally.\<close>

definition then_print :: "outcome \<Rightarrow> ustr \<Rightarrow> outcome" where
  "then_print r msg =
     (case r of
        (Inl e, self', evs) \<Rightarrow> (Inl e, self', evs)
      | (Inr u, self', evs) \<Rightarrow> (Inr u, self', evs @ [Print msg]))"

text \<open>\<open>Column(col.name, col.type)\<close> (lines 73 and 86).\<close>

definition copy_column :: "column \<Rightarrow> column" where
  "copy_column col = \<lparr>col_name = col_name col, col_type = col_type col\<rparr>"

text \<open>
  \<open>Index(idx.name, *[idx.columns])\<close> (lines 74 and 87): the list \<open>[idx.columns]\<close> has one
  element, the whole collection of the index's columns, and unpacking it passes that
  collection as the one column of the new index. The library takes a column or a column
  name there and refuses a collection with \<open>ArgumentError\<close>.
\<close>

definition new_index :: "index \<Rightarrow> error + index" where
  "new_index idx = Inl ArgumentError"

text \<open>The list comprehension over \<open>table.indexes\<close>: the first error ends it.\<close>

fun new_indexes :: "index list \<Rightarrow> error + index list" where
  "new_indexes [] = Inr []"
| "new_indexes (idx # rest) =
     (case new_index idx of
        Inl e \<Rightarrow> Inl e
      | Inr i \<Rightarrow>
          (case new_indexes rest of
             Inl e \<Rightarrow> Inl e
           | Inr is \<Rightarrow> Inr (i # is)))"

text \<open>
  Lines 73-77 (and 86-90): the columns, the indexes, then
  \<open>Table(table_name, self.metadata, *columns, *indexes)\<close> and its creation on the
  target. Reading \<open>self.metadata\<close> raises when the object has no such attribute.
\<close>

definition make_and_create :: "dbms \<Rightarrow> corrector \<Rightarrow> ustr \<Rightarrow> table \<Rightarrow> outcome" where
  "make_and_create db self table_name t =
     (let cols = map copy_column (columns t)
      in case new_indexes (indexes t) of
           Inl e \<Rightarrow> (Inl e, self, [])
         | Inr idxs \<Rightarrow>
             (case metadata self of
                None \<Rightarrow> (Inl AttributeError, self, [])
              | Some m \<Rightarrow> transaction db (CreateTable table_name cols idxs) self))"

definition add_table :: "dbms \<Rightarrow> corrector \<Rightarrow> ustr \<Rightarrow> outcome" where
  "add_table db self table_name =
     (case get_table (source_engine self) table_name of
        Inl e \<Rightarrow> (Inl e, self, [])
      | Inr None \<Rightarrow> (Inr (), self, [Print (msg_table_not_found table_name)])
      | Inr (Some t) \<Rightarrow>
          then_print (make_and_create db self table_name t) (msg_table_added_done table_name))"

definition create_table :: "dbms \<Rightarrow> corrector \<Rightarrow> ustr \<Rightarrow> outcome" where
  "create_table db self table_name =
     (case get_table (source_engine self) table_name of
        Inl e \<Rightarrow> (Inl e, self, [])
      | Inr None \<Rightarrow> (Inr (), self, [Print (msg_table_not_found table_name)])
      | Inr (Some t) \<Rightarrow>
          then_print (make_and_create db self table_name t) (msg_table_created_done table_name))"

text \<open>The text of lines 106-109 and of lines 127-130, with their line breaks and indentation.\<close>

definition alter_table_sql :: "ustr \<Rightarrow> ustr \<Rightarrow> ustr" where
  "alter_table_sql table_name compiled =
     [nl] @ replicate 16 sp @ ascii ''ALTER TABLE '' @ table_name
     @ [nl] @ replicate 16 sp @ ascii ''ADD COLUMN '' @ compiled
     @ [nl] @ replicate 12 sp"

definition create_index_sql :: "ustr \<Rightarrow> ustr \<Rightarrow> index \<Rightarrow> ustr" where
  "create_index_sql table_name iname idx =
     [nl] @ replicate 16 sp @ ascii ''CREATE INDEX '' @ iname
     @ [nl] @ replicate 16 sp @ ascii ''ON '' @ table_name @ ascii '' (''
     @ join (ascii '', '') (map col_name (idx_columns idx)) @ ascii '')''
     @ [nl] @ replicate 12 sp"

definition add_column :: "dbms \<Rightarrow> corrector \<Rightarrow> ustr \<Rightarrow> ustr \<Rightarrow> outcome" where
  "add_column db self table_name cname =
     (case get_table (source_engine self) table_name of
        Inl e \<Rightarrow> (Inl e, self, [])
      | Inr None \<Rightarrow> (Inr (), self, [Print (msg_table_not_found table_name)])
      | Inr (Some t) \<Rightarrow>
          (case find (\<lambda>c. col_name c = cname) (columns t) of
             None \<Rightarrow> (Inr (), self, [Print (msg_column_not_found cname table_name)])
           | Some col \<Rightarrow>
               then_print
                 (transaction db (Text (alter_table_sql table_name (compile_column db col))) self)
                 (msg_column_added_done cname table_name)))"

definition add_index :: "dbms \<Rightarrow> corrector \<Rightarrow> ustr \<Rightarrow> ustr \<Rightarrow> outcome" where
  "add_index db self table_name iname =
     (case get_table (source_engine self) table_name of
        Inl e \<Rightarrow> (Inl e, self, [])
      | Inr None \<Rightarrow> (Inr (), self, [Print (msg_table_not_found table_name)])
      | Inr (Some t) \<Rightarrow>
          (case find (\<lambda>i. idx_name i = iname) (indexes t) of
             None \<Rightarrow> (Inr (), self, [Print (msg_index_not_found iname table_name)])
           | Some idx \<Rightarrow>
               then_print
                 (transaction db (Text (create_index_sql table_name iname idx)) self)
                 (msg_index_added_done iname table_name)))"

section \<open>The correction: \<open>correct_schema\<close> (lines 49-65)\<close>

text \<open>\<open>diff.split(" ")[-1]\<close>\<close>

definition last_word :: "ustr \<Rightarrow> error + ustr" where
  "last_word diff =
     (case rev (split_space diff) of [] \<Rightarrow> Inl IndexError | w # ws \<Rightarrow> Inr w)"

text \<open>\<open>a, b = diff.split(" ")[-2:]\<close>: the unpacking needs two pieces.\<close>

definition last_two_words :: "ustr \<Rightarrow> error + ustr \<times> ustr" where
  "last_two_words diff =
     (case rev (split_space diff) of
        b # a # ws \<Rightarrow> Inr (a, b)
      | _ \<Rightarrow> Inl ValueError)"

definition after_print :: "ustr \<Rightarrow> outcome \<Rightarrow> outcome" where
  "after_print msg r = (case r of (res, self', evs) \<Rightarrow> (res, self', Print msg # evs))"

text \<open>The body of the loop for one difference (lines 52-64).\<close>

definition correct_one :: "dbms \<Rightarrow> corrector \<Rightarrow> ustr \<Rightarrow> outcome" where
  "correct_one db self diff =
     after_print (msg_correcting diff)
       (if py_in pat_table_added diff then
          (case last_word diff of
             Inl e \<Rightarrow> (Inl e, self, [])
           | Inr table_name \<Rightarrow> add_table db self table_name)
        else if py_in pat_table_missing diff then
          (case last_word diff of
             Inl e \<Rightarrow> (Inl e, self, [])
           | Inr table_name \<Rightarrow> create_table db self table_name)
        else if py_in pat_column_missing diff then
          (case last_two_words diff of
             Inl e \<Rightarrow> (Inl e, self, [])
           | Inr (table_name, cname) \<Rightarrow> add_column db self table_name cname)
        else if py_in pat_index_missing diff then
          (case last_two_words diff of
             Inl e \<Rightarrow> (Inl e, self, [])
           | Inr (table_name, iname) \<Rightarrow> add_index db self table_name iname)
        else (Inr (), self, []))"

text \<open>The loop: nothing catches an error, so the first one ends the run.\<close>

fun correct_loop :: "dbms \<Rightarrow> corrector \<Rightarrow> ustr list \<Rightarrow> outcome" where
  "correct_loop db self [] = (Inr (), self, [])"
| "correct_loop db self (diff # rest) =
     (case correct_one db self diff of
        (Inl e, self', evs) \<Rightarrow> (Inl e, self', evs)
      | (Inr u, self', evs) \<Rightarrow>
          (case correct_loop db self' rest of
             (res, self'', evs') \<Rightarrow> (res, self'', evs @ evs')))"

definition correct_schema :: "ustr list \<Rightarrow> dbms \<Rightarrow> corrector \<Rightarrow> outcome" where
  "correct_schema names db self =
     (case compare_schemas names self of
        Inl e \<Rightarrow> (Inl e, self, [])
      | Inr differences \<Rightarrow> then_print (correct_loop db self differences) msg_finished)"

text \<open>The statements a run sent to the target, in order.\<close>

fun statements :: "event list \<Rightarrow> statement list" where
  "statements [] = []"
| "statements (Execute s # evs) = s # statements evs"
| "statements (e # evs) = statements evs"


section \<open>Sample databases\<close>

text \<open>Small concrete databases and target systems on which the theorems below are run.\<close>

definition users :: ustr where
  "users = ascii ''users''"

definition orders :: ustr where
  "orders = ascii ''orders''"

definition ex_col :: "string \<Rightarrow> column" where
  "ex_col n = \<lparr>col_name = ascii n, col_type = ascii ''INTEGER''\<rparr>"

definition ex_idx :: "ustr \<Rightarrow> bool \<Rightarrow> index" where
  "ex_idx n u = \<lparr>idx_name = n, idx_columns = [ex_col ''name'', ex_col ''id''], idx_unique = u\<rparr>"

definition no_tables :: inspector where
  "no_tables = \<lparr>get_table_names = [], get_table = (\<lambda>x. Inr None)\<rparr>"

definition one_table :: "ustr \<Rightarrow> table \<Rightarrow> inspector" where
  "one_table n t =
     \<lparr>get_table_names = [n], get_table = (\<lambda>x. if x = n then Inr (Some t) else Inr None)\<rparr>"

definition two_tables :: "ustr \<Rightarrow> table \<Rightarrow> ustr \<Rightarrow> table \<Rightarrow> inspector" where
  "two_tables n t m u =
     \<lparr>get_table_names = [n, m],
      get_table = (\<lambda>x. if x = n then Inr (Some t) else if x = m then Inr (Some u) else Inr None)\<rparr>"

text \<open>A database whose table \<open>n\<close> cannot be read and whose table \<open>m\<close> can.\<close>

definition unreadable_and :: "ustr \<Rightarrow> ustr \<Rightarrow> table \<Rightarrow> inspector" where
  "unreadable_and n m u =
     \<lparr>get_table_names = [n, m],
      get_table = (\<lambda>x. if x = n then Inl OperationalError
                       else if x = m then Inr (Some u) else Inr None)\<rparr>"

definition users3 :: table where
  "users3 = \<lparr>columns = [ex_col ''id'', ex_col ''name'', ex_col ''email''], indexes = []\<rparr>"

definition users2 :: table where
  "users2 = \<lparr>columns = [ex_col ''id'', ex_col ''name''], indexes = []\<rparr>"


definition users_indexed :: "ustr \<Rightarrow> bool \<Rightarrow> table" where
  "users_indexed iname u = \<lparr>columns = [ex_col ''id'', ex_col ''name''], indexes = [ex_idx iname u]\<rparr>"

text \<open>
  A target that accepts every statement, behind the synchronous engine that
  \<open>__init__\<close> creates.
\<close>

definition db_sync :: dbms where
  "db_sync =
     \<lparr>execute = (\<lambda>stmt t. Inr t),
      compile_column = (\<lambda>c. col_name c @ [sp] @ col_type c),
      async_with_begin = Some TypeError\<rparr>"

text \<open>
  Targets behind an engine whose block can be entered: one that accepts every
  statement, and one that refuses exactly one statement.
\<close>

definition db_accept :: dbms where
  "db_accept =
     \<lparr>execute = (\<lambda>stmt t. Inr t),
      compile_column = (\<lambda>c. col_name c @ [sp] @ col_type c),
      async_with_begin = None\<rparr>"

definition db_refuse_only :: "statement \<Rightarrow> dbms" where
  "db_refuse_only bad =
     \<lparr>execute = (\<lambda>stmt t. if stmt = bad then Inl ProgrammingError else Inr t),
      compile_column = (\<lambda>c. col_name c @ [sp] @ col_type c),
      async_with_begin = None\<rparr>"

text \<open>An index name with a double quote and a semicolon in it.\<close>

definition quoted_name :: ustr where
  "quoted_name = ascii [CHR ''x'', CHR 0x22, CHR '';'', CHR ''-'', CHR ''-'']"

text \<open>
  A source whose table is named like the fifth word of a column message, with two
  columns the target's table lacks.
\<close>

definition kolonka_source :: inspector where
  "kolonka_source = one_table w_kolonka \<lparr>columns = [ex_col ''c1'', ex_col ''c2''], indexes = []\<rparr>"

definition kolonka_target :: inspector where
  "kolonka_target = one_table w_kolonka \<lparr>columns = [], indexes = []\<rparr>"

definition add_c1 :: statement where
  "add_c1 = Text (alter_table_sql w_kolonka (ascii ''c1 INTEGER''))"

definition add_c2 :: statement where
  "add_c2 = Text (alter_table_sql w_kolonka (ascii ''c2 INTEGER''))"

text \<open>
  A source whose table is named like the fifth word of an index message, with an index
  the target's table lacks.
\<close>

definition indeks_source :: inspector where
  "indeks_source = one_table w_indeks (users_indexed quoted_name False)"

definition indeks_target :: inspector where
  "indeks_target = one_table w_indeks users2"




text \<open>A table name of two words.\<close>

definition my_table :: ustr where
  "my_table = ascii ''my table''"


section \<open>Notions used in the statements\<close>


text \<open>The traffic with the target: the events of a run without the printed lines.\<close>

fun traffic :: "event list \<Rightarrow> event list" where
  "traffic [] = []"
| "traffic (Print msg # evs) = traffic evs"
| "traffic (e # evs) = e # traffic evs"

fun is_create :: "statement \<Rightarrow> bool" where
  "is_create (CreateTable name cols idxs) = True"
| "is_create (Text sql) = False"

text \<open>
  An operation ran as one transaction of its own, or sent nothing: either there was no
  traffic and the object is as before; or one statement was sent between \<open>Begin\<close> and
  \<open>Commit\<close>, the target accepted it and is now in the state it answered; or one
  statement was sent between \<open>Begin\<close> and \<open>Rollback\<close>, the target refused it, the
  operation ends with that error and the object is as before.
\<close>

definition own_transaction :: "dbms \<Rightarrow> corrector \<Rightarrow> outcome \<Rightarrow> bool" where
  "own_transaction db self out =
     (case out of (res, self', evs) \<Rightarrow>
        (traffic evs = [] \<and> self' = self)
      \<or> (\<exists>stmt target'.
            traffic evs = [Begin, Execute stmt, Commit] \<and> res = Inr ()
            \<and> execute db stmt (target_engine self) = Inr target'
            \<and> self' = self\<lparr>target_engine := target'\<rparr>)
      \<or> (\<exists>stmt e.
            traffic evs = [Begin, Execute stmt, Rollback] \<and> res = Inl e
            \<and> execute db stmt (target_engine self) = Inl e
            \<and> self' = self))"





section \<open>Events, results and the shape of one operation\<close>

lemma traffic_append: "traffic (xs @ ys) = traffic xs @ traffic ys"
  by (induction xs rule: traffic.induct) simp_all

lemma statements_append: "statements (xs @ ys) = statements xs @ statements ys"
  by (induction xs rule: statements.induct) simp_all


lemma then_print_fst: "fst (then_print out msg) = fst out"
  by (cases out) (simp add: then_print_def split: sum.splits)

lemma then_print_self: "fst (snd (then_print out msg)) = fst (snd out)"
  by (cases out) (simp add: then_print_def split: sum.splits)

lemma then_print_traffic: "traffic (snd (snd (then_print out msg))) = traffic (snd (snd out))"
  by (cases out) (simp add: then_print_def traffic_append split: sum.splits)

lemma statements_then_print:
  "statements (snd (snd (then_print out msg))) = statements (snd (snd out))"
  by (cases out) (simp add: then_print_def statements_append split: sum.splits)

lemma statements_after_print:
  "statements (snd (snd (after_print msg out))) = statements (snd (snd out))"
  by (cases out) (simp add: after_print_def)

lemma statements_transaction:
  "statements (snd (snd (transaction db stmt self)))
     = (case async_with_begin db of None \<Rightarrow> [stmt] | Some e \<Rightarrow> [])"
  by (simp add: transaction_def split: sum.splits option.splits)

lemma transaction_not_entered:
  "async_with_begin db = Some e \<Longrightarrow> transaction db stmt self = (Inl e, self, [])"
  by (simp add: transaction_def)

lemma new_indexes_cases:
  "new_indexes idxs = (if idxs = [] then Inr [] else Inl ArgumentError)"
  by (cases idxs) (simp_all add: new_index_def)

lemma own_transaction_transaction: "own_transaction db self (transaction db stmt self)"
  by (simp add: own_transaction_def transaction_def split: sum.splits option.splits)

lemma own_transaction_then_print:
  "own_transaction db self out \<Longrightarrow> own_transaction db self (then_print out msg)"
  by (cases out) (auto simp: own_transaction_def then_print_def traffic_append split: sum.splits)

lemma own_transaction_after_print:
  "own_transaction db self out \<Longrightarrow> own_transaction db self (after_print msg out)"
  by (cases out) (simp add: own_transaction_def after_print_def)

lemma own_transaction_quiet:
  "traffic evs = [] \<Longrightarrow> own_transaction db self (res, self, evs)"
  by (simp add: own_transaction_def)

lemma own_transaction_make_and_create:
  "own_transaction db self (make_and_create db self n t)"
  by (simp add: make_and_create_def own_transaction_transaction own_transaction_quiet
      split: option.splits sum.splits)

lemma own_transaction_add_table: "own_transaction db self (add_table db self n)"
  by (simp add: add_table_def own_transaction_quiet own_transaction_then_print
      own_transaction_make_and_create split: sum.splits option.splits)

lemma own_transaction_create_table: "own_transaction db self (create_table db self n)"
  by (simp add: create_table_def own_transaction_quiet own_transaction_then_print
      own_transaction_make_and_create split: sum.splits option.splits)

lemma own_transaction_add_column: "own_transaction db self (add_column db self n c)"
  by (simp add: add_column_def own_transaction_quiet own_transaction_then_print
      own_transaction_transaction split: sum.splits option.splits)

lemma own_transaction_add_index: "own_transaction db self (add_index db self n i)"
  by (simp add: add_index_def own_transaction_quiet own_transaction_then_print
      own_transaction_transaction split: sum.splits option.splits)

lemma own_transaction_correct_one: "own_transaction db self (correct_one db self diff)"
  unfolding correct_one_def
  by (rule own_transaction_after_print)
     (simp add: own_transaction_quiet own_transaction_add_table own_transaction_create_table
        own_transaction_add_column own_transaction_add_index split: sum.splits prod.splits)

lemma own_transaction_metadata:
  "own_transaction db self out \<Longrightarrow> metadata (fst (snd out)) = metadata self"
  by (cases out) (auto simp: own_transaction_def)


section \<open>Substrings and splitting\<close>

lemma py_in_prefix: "py_in p (p @ s)"
proof (cases "p @ s")
  case Nil
  then show ?thesis by simp
next
  case (Cons c cs)
  have "take (length p) (p @ s) = p" by simp
  with Cons show ?thesis by simp
qed

lemma py_in_Cons: "py_in p s \<Longrightarrow> py_in p (c # s)"
  by simp

lemma py_in_append: "py_in p s \<Longrightarrow> py_in p (a @ s)"
  by (induction a) (simp_all add: py_in_Cons del: py_in.simps)

lemma py_in_middle: "py_in p (a @ p @ b)"
  by (rule py_in_append) (rule py_in_prefix)

lemma py_in_iff: "py_in p s \<longleftrightarrow> (\<exists>a b. s = a @ p @ b)"
proof
  show "py_in p s \<Longrightarrow> \<exists>a b. s = a @ p @ b"
  proof (induction s)
    case Nil
    then show ?case by simp
  next
    case (Cons c s)
    from Cons.prems consider "take (length p) (c # s) = p" | "py_in p s" by auto
    then show ?case
    proof cases
      case 1
      then have "c # s = [] @ p @ drop (length p) (c # s)"
        by (metis append_Nil append_take_drop_id)
      then show ?thesis by blast
    next
      case 2
      with Cons.IH obtain a b where "s = a @ p @ b" by blast
      then have "c # s = (c # a) @ p @ b" by simp
      then show ?thesis by blast
    qed
  qed
next
  show "\<exists>a b. s = a @ p @ b \<Longrightarrow> py_in p s"
    using py_in_middle by blast
qed

lemma py_in_set: "py_in p s \<Longrightarrow> set p \<subseteq> set s"
  by (auto simp: py_in_iff)

lemma py_in_skip:
  "p \<noteq> [] \<Longrightarrow> hd p \<notin> set a \<Longrightarrow> py_in p (a @ b) \<Longrightarrow> py_in p b"
proof (induction a)
  case Nil
  then show ?case by simp
next
  case (Cons x a)
  from Cons.prems(3) consider "take (length p) (x # a @ b) = p" | "py_in p (a @ b)"
    by auto
  then show ?case
  proof cases
    case 1
    with Cons.prems(1) have "hd p = x" by (cases p) auto
    with Cons.prems(2) show ?thesis by simp
  next
    case 2
    with Cons show ?thesis by simp
  qed
qed

lemma py_in_join: "x \<in> set xs \<Longrightarrow> py_in x (join sep xs)"
proof (induction sep xs rule: join.induct)
  case (1 sep)
  then show ?case by simp
next
  case (2 sep y)
  then show ?case using py_in_prefix [of y "[]"] by simp
next
  case (3 sep y z zs)
  show ?case
  proof (cases "x = y")
    case True
    then show ?thesis using py_in_prefix [of y "sep @ join sep (z # zs)"] by simp
  next
    case False
    with 3 have "py_in x (join sep (z # zs))" by simp
    then have "py_in x ((y @ sep) @ join sep (z # zs))" by (rule py_in_append)
    then show ?thesis by simp
  qed
qed

lemma split_space_not_Nil: "split_space s \<noteq> []"
  by (induction s) (auto split: list.splits)

lemma split_space_no_space: "sp \<notin> set s \<Longrightarrow> split_space s = [s]"
  by (induction s) auto

lemma split_space_append: "split_space (a @ sp # b) = split_space a @ split_space b"
proof (induction a)
  case Nil
  show ?case by simp
next
  case (Cons c a)
  obtain w ws where w: "split_space a = w # ws"
    using split_space_not_Nil [of a] by (cases "split_space a") auto
  show ?case using Cons w by simp
qed

lemma last_word_append:
  "sp \<notin> set n \<Longrightarrow> last_word (a @ sp # n) = Inr n"
  by (simp add: last_word_def split_space_append split_space_no_space)


section \<open>The synchronous engine\<close>

lemma make_and_create_sync:
  "async_with_begin db = Some e \<Longrightarrow> source_engine a = source_engine b \<Longrightarrow> metadata a = metadata b
   \<Longrightarrow> fst (make_and_create db a n t) = fst (make_and_create db b n t)
     \<and> snd (snd (make_and_create db a n t)) = snd (snd (make_and_create db b n t))
     \<and> fst (snd (make_and_create db a n t)) = a
     \<and> traffic (snd (snd (make_and_create db a n t))) = []"
  by (simp add: make_and_create_def transaction_not_entered new_indexes_cases split: option.splits)

lemma add_table_sync:
  "async_with_begin db = Some e \<Longrightarrow> source_engine a = source_engine b \<Longrightarrow> metadata a = metadata b
   \<Longrightarrow> fst (add_table db a n) = fst (add_table db b n)
     \<and> snd (snd (add_table db a n)) = snd (snd (add_table db b n))
     \<and> fst (snd (add_table db a n)) = a
     \<and> traffic (snd (snd (add_table db a n))) = []"
  by (simp add: add_table_def make_and_create_def transaction_not_entered new_indexes_cases
      then_print_def split: sum.splits option.splits)

lemma create_table_sync:
  "async_with_begin db = Some e \<Longrightarrow> source_engine a = source_engine b \<Longrightarrow> metadata a = metadata b
   \<Longrightarrow> fst (create_table db a n) = fst (create_table db b n)
     \<and> snd (snd (create_table db a n)) = snd (snd (create_table db b n))
     \<and> fst (snd (create_table db a n)) = a
     \<and> traffic (snd (snd (create_table db a n))) = []"
  by (simp add: create_table_def make_and_create_def transaction_not_entered new_indexes_cases
      then_print_def split: sum.splits option.splits)

lemma add_column_sync:
  "async_with_begin db = Some e \<Longrightarrow> source_engine a = source_engine b
   \<Longrightarrow> fst (add_column db a n c) = fst (add_column db b n c)
     \<and> snd (snd (add_column db a n c)) = snd (snd (add_column db b n c))
     \<and> fst (snd (add_column db a n c)) = a
     \<and> traffic (snd (snd (add_column db a n c))) = []"
  by (simp add: add_column_def transaction_not_entered then_print_def
      split: sum.splits option.splits)

lemma add_index_sync:
  "async_with_begin db = Some e \<Longrightarrow> source_engine a = source_engine b
   \<Longrightarrow> fst (add_index db a n i) = fst (add_index db b n i)
     \<and> snd (snd (add_index db a n i)) = snd (snd (add_index db b n i))
     \<and> fst (snd (add_index db a n i)) = a
     \<and> traffic (snd (snd (add_index db a n i))) = []"
  by (simp add: add_index_def transaction_not_entered then_print_def
      split: sum.splits option.splits)

lemma after_print_parts:
  "fst (after_print msg out) = fst out"
  "fst (snd (after_print msg out)) = fst (snd out)"
  "snd (snd (after_print msg out)) = Print msg # snd (snd out)"
  by (cases out; simp add: after_print_def)+

lemma correct_one_sync:
  assumes "async_with_begin db = Some e" "source_engine a = source_engine b" "metadata a = metadata b"
  shows "fst (correct_one db a d) = fst (correct_one db b d)
     \<and> snd (snd (correct_one db a d)) = snd (snd (correct_one db b d))
     \<and> fst (snd (correct_one db a d)) = a
     \<and> traffic (snd (snd (correct_one db a d))) = []"
proof -
  have "traffic (snd (snd (correct_one db a d))) = []"
    unfolding correct_one_def after_print_parts
    using add_table_sync [OF assms(1) refl refl, of a] create_table_sync [OF assms(1) refl refl, of a]
      add_column_sync [OF assms(1) refl, of a] add_index_sync [OF assms(1) refl, of a]
    by (simp split: sum.splits prod.splits)
  moreover have "fst (snd (correct_one db a d)) = a"
    unfolding correct_one_def after_print_parts
    using add_table_sync [OF assms(1) refl refl, of a] create_table_sync [OF assms(1) refl refl, of a]
      add_column_sync [OF assms(1) refl, of a] add_index_sync [OF assms(1) refl, of a]
    by (simp split: sum.splits prod.splits)
  moreover have "fst (correct_one db a d) = fst (correct_one db b d)"
    unfolding correct_one_def after_print_parts
    using add_table_sync [OF assms] create_table_sync [OF assms]
      add_column_sync [OF assms(1,2)] add_index_sync [OF assms(1,2)]
    by (simp split: sum.splits prod.splits)
  moreover have "snd (snd (correct_one db a d)) = snd (snd (correct_one db b d))"
    unfolding correct_one_def after_print_parts
    using add_table_sync [OF assms] create_table_sync [OF assms]
      add_column_sync [OF assms(1,2)] add_index_sync [OF assms(1,2)]
    by (simp split: sum.splits prod.splits)
  ultimately show ?thesis by simp
qed

lemma correct_loop_sync:
  "async_with_begin db = Some e \<Longrightarrow> source_engine a = source_engine b \<Longrightarrow> metadata a = metadata b
   \<Longrightarrow> fst (correct_loop db a ds) = fst (correct_loop db b ds)
     \<and> snd (snd (correct_loop db a ds)) = snd (snd (correct_loop db b ds))
     \<and> fst (snd (correct_loop db a ds)) = a
     \<and> traffic (snd (snd (correct_loop db a ds))) = []"
proof (induction ds)
  case Nil
  show ?case by simp
next
  case (Cons d ds)
  obtain ra ea where a: "correct_one db a d = (ra, a, ea)"
    using correct_one_sync [OF Cons.prems(1) refl refl, of a d]
    by (cases "correct_one db a d") auto
  obtain rb eb where b: "correct_one db b d = (rb, b, eb)"
    using correct_one_sync [OF Cons.prems(1) refl refl, of b d]
    by (cases "correct_one db b d") auto
  from correct_one_sync [OF Cons.prems, of d] a b
  have eq: "ra = rb" "ea = eb" "traffic ea = []" by auto
  obtain la sa va where la: "correct_loop db a ds = (la, sa, va)"
    by (cases "correct_loop db a ds")
  obtain lb sb vb where lb: "correct_loop db b ds = (lb, sb, vb)"
    by (cases "correct_loop db b ds")
  from Cons.IH [OF Cons.prems] la lb
  have ih: "la = lb" "va = vb" "sa = a" "traffic va = []" by auto
  show ?case using a b eq la lb ih by (cases rb) (simp_all add: traffic_append)
qed

lemma correct_schema_sync:
  assumes "async_with_begin db = Some e"
    and "source_engine a = source_engine b" and "metadata a = metadata b"
    and "compare_schemas names a = compare_schemas names b"
  shows "fst (correct_schema names db a) = fst (correct_schema names db b)
     \<and> snd (snd (correct_schema names db a)) = snd (snd (correct_schema names db b))
     \<and> fst (snd (correct_schema names db a)) = a
     \<and> traffic (snd (snd (correct_schema names db a))) = []"
proof (cases "compare_schemas names b")
  case (Inl x)
  with assms(4) show ?thesis by (simp add: correct_schema_def)
next
  case (Inr ds)
  obtain la sa va where la: "correct_loop db a ds = (la, sa, va)"
    by (cases "correct_loop db a ds")
  obtain lb sb vb where lb: "correct_loop db b ds = (lb, sb, vb)"
    by (cases "correct_loop db b ds")
  from correct_loop_sync [OF assms(1-3), of ds] la lb
  have "la = lb" "va = vb" "sa = a" "traffic va = []" by auto
  with Inr assms(4) la lb show ?thesis
    by (cases lb) (simp_all add: correct_schema_def then_print_def traffic_append)
qed


section \<open>The words of a table difference\<close>

lemma msg_table_added_parts: "msg_table_added n = pat_table_added @ sp # n"
  by (simp add: msg_table_added_def pat_table_added_def spaced_def)

lemma msg_table_missing_parts: "msg_table_missing n = pat_table_missing @ sp # n"
  by (simp add: msg_table_missing_def pat_table_missing_def spaced_def)

lemma added_in_added: "py_in pat_table_added (msg_table_added n)"
  unfolding msg_table_added_parts by (rule py_in_prefix)

lemma missing_in_missing: "py_in pat_table_missing (msg_table_missing n)"
  unfolding msg_table_missing_parts by (rule py_in_prefix)

lemma last_word_table_added: "sp \<notin> set n \<Longrightarrow> last_word (msg_table_added n) = Inr n"
  unfolding msg_table_added_parts by (rule last_word_append)

lemma last_word_table_missing: "sp \<notin> set n \<Longrightarrow> last_word (msg_table_missing n) = Inr n"
  unfolding msg_table_missing_parts by (rule last_word_append)

lemma added_not_in_missing:
  assumes "sp \<notin> set n"
  shows "\<not> py_in pat_table_added (msg_table_missing n)"
proof
  assume "py_in pat_table_added (msg_table_missing n)"
  then have "py_in pat_table_added ((pat_table_missing @ [sp]) @ n)"
    by (simp add: msg_table_missing_parts)
  moreover have "pat_table_added \<noteq> []"
    by code_simp
  moreover have "hd pat_table_added \<notin> set (pat_table_missing @ [sp])"
    by code_simp
  ultimately have "py_in pat_table_added n"
    using py_in_skip by blast
  then have "set pat_table_added \<subseteq> set n"
    by (rule py_in_set)
  moreover have "sp \<in> set pat_table_added"
    by code_simp
  ultimately show False using assms by blast
qed


section \<open>Comparing a schema with itself\<close>





lemma compare_table_unreadable:
  "get_table S n = Inl OperationalError \<Longrightarrow> compare_table S T n = Inl OperationalError"
  by (simp add: compare_table_def)








section \<open>Tables that cannot be read\<close>

lemma compare_table_target_unreadable:
  "get_table S n = Inr t \<Longrightarrow> get_table T n = Inl OperationalError
   \<Longrightarrow> compare_table S T n = Inl OperationalError"
  by (simp add: compare_table_def)

lemma compare_loop_skip:
  "compare_table S T n = Inl OperationalError
   \<Longrightarrow> compare_loop S T (before @ n # after) = compare_loop S T (before @ after)"
  by (induction before) (simp_all split: sum.splits error.splits)

text \<open>
  Claim C7, as amended. When \<open>get_table\<close> raises \<open>OperationalError\<close> for a table name, on
  the source or on the target, the comparison skips that name and goes on with the
  remaining ones, and the skip leaves no trace: the result is the one of a run that
  never visited the name. (\<open>compare_schemas\<close> prints nothing and returns only the list
  of differences, so there is nowhere else a warning could be.)
\<close>

theorem unreadable_table_skipped_silently:
  assumes "get_table (source_engine self) n = Inl OperationalError
     \<or> ((\<exists>t. get_table (source_engine self) n = Inr t)
         \<and> get_table (target_engine self) n = Inl OperationalError)"
  shows "compare_schemas (before @ n # after) self = compare_schemas (before @ after) self"
proof -
  from assms
  have "compare_table (source_engine self) (target_engine self) n = Inl OperationalError"
    by (auto simp: compare_table_unreadable compare_table_target_unreadable)
  then show ?thesis by (simp add: compare_schemas_def compare_loop_skip)
qed

theorem unreadable_table_skipped_silently_witness:
  "get_table (source_engine
      (init (unreadable_and users orders users3) (two_tables users users2 orders users2))) users
     = Inl OperationalError
   \<and> compare_schemas ([] @ users # [orders])
         (init (unreadable_and users orders users3) (two_tables users users2 orders users2))
       = compare_schemas ([] @ [orders])
           (init (unreadable_and users orders users3) (two_tables users users2 orders users2))
   \<and> compare_schemas [users, orders]
         (init (unreadable_and users orders users3) (two_tables users users2 orders users2))
       = Inr [msg_column_missing orders (ascii ''email'')]"
proof -
  let ?self = "init (unreadable_and users orders users3) (two_tables users users2 orders users2)"
  have a: "get_table (source_engine ?self) users = Inl OperationalError"
    by (simp add: init_def unreadable_and_def)
  have b: "compare_schemas [users, orders] ?self = Inr [msg_column_missing orders (ascii ''email'')]"
    by code_simp
  from unreadable_table_skipped_silently [of ?self users "[]" "[orders]"] a b
  show ?thesis by simp
qed

text \<open>
  Claim C7 as stated fails: the source's table \<open>users\<close> cannot be read, the run returns
  normally, the list of differences is empty and the only line of the whole run is the
  closing message. No warning is recorded anywhere.
\<close>

theorem unreadable_table_warning_counterexample:
  "iteration_order (unreadable_and users orders users2) (two_tables users users2 orders users2)
     [users, orders]
   \<and> get_table (unreadable_and users orders users2) users = Inl OperationalError
   \<and> compare_schemas [users, orders]
        (init (unreadable_and users orders users2) (two_tables users users2 orders users2)) = Inr []
   \<and> fst (correct_schema [users, orders] db_accept
        (init (unreadable_and users orders users2) (two_tables users users2 orders users2))) = Inr ()
   \<and> snd (snd (correct_schema [users, orders] db_accept
        (init (unreadable_and users orders users2) (two_tables users users2 orders users2))))
      = [Print msg_finished]"
  by (intro conjI; code_simp)


section \<open>Columns and indexes that only the target has\<close>

















section \<open>Entering the transaction block\<close>

lemma add_column_not_entered:
  "async_with_begin db = Some e \<Longrightarrow> get_table (source_engine self) table_name = Inr (Some t)
   \<Longrightarrow> find (\<lambda>c. col_name c = cname) (columns t) = Some col
   \<Longrightarrow> add_column db self table_name cname = (Inl e, self, [])"
  by (simp add: add_column_def transaction_not_entered then_print_def)

lemma add_index_not_entered:
  "async_with_begin db = Some e \<Longrightarrow> get_table (source_engine self) table_name = Inr (Some t)
   \<Longrightarrow> find (\<lambda>i. idx_name i = iname) (indexes t) = Some idx
   \<Longrightarrow> add_index db self table_name iname = (Inl e, self, [])"
  by (simp add: add_index_def transaction_not_entered then_print_def)

text \<open>
  Claim C6 fails on the code. The engine of \<open>__init__\<close> is synchronous, so entering
  \<open>async with self.target_engine.begin()\<close> raises \<open>TypeError\<close>: no transaction is begun,
  nothing is sent and nothing is committed. For a table and a column (or an index) that
  the source has, \<open>add_column\<close> (or \<open>add_index\<close>) ends with that error and without any
  event; and no run of \<open>correct_schema\<close> has any traffic with the target.
\<close>

theorem synchronous_engine_opens_no_transaction:
  assumes "synchronous db"
  shows "traffic (snd (snd (correct_schema names db self))) = []
     \<and> fst (snd (correct_schema names db self)) = self
     \<and> (get_table (source_engine self) table_name = Inr (Some t)
          \<and> find (\<lambda>c. col_name c = cname) (columns t) = Some col \<longrightarrow>
          add_column db self table_name cname = (Inl TypeError, self, []))
     \<and> (get_table (source_engine self) table_name = Inr (Some t)
          \<and> find (\<lambda>i. idx_name i = iname) (indexes t) = Some idx \<longrightarrow>
          add_index db self table_name iname = (Inl TypeError, self, []))"
proof -
  from assms have e: "async_with_begin db = Some TypeError"
    by (simp add: synchronous_def)
  from correct_schema_sync [where a = self and b = self and names = names, OF e refl refl refl]
  have "traffic (snd (snd (correct_schema names db self))) = []"
    and "fst (snd (correct_schema names db self)) = self"
    by auto
  then show ?thesis
    using add_column_not_entered [OF e] add_index_not_entered [OF e] by blast
qed

theorem synchronous_engine_opens_no_transaction_witness:
  "synchronous db_sync
   \<and> get_table (source_engine (init (one_table users users3) (one_table users users2))) users
       = Inr (Some users3)
   \<and> find (\<lambda>c. col_name c = ascii ''email'') (columns users3) = Some (ex_col ''email'')
   \<and> add_column db_sync (init (one_table users users3) (one_table users users2))
        users (ascii ''email'')
       = (Inl TypeError, init (one_table users users3) (one_table users users2), [])
   \<and> traffic (snd (snd (correct_schema [w_kolonka] db_sync
        (init kolonka_source kolonka_target)))) = []
   \<and> fst (correct_schema [w_kolonka] db_sync (init kolonka_source kolonka_target))
       = Inl TypeError"
proof -
  let ?self = "init (one_table users users3) (one_table users users2)"
  have a: "synchronous db_sync"
    by (simp add: synchronous_def db_sync_def)
  have b: "get_table (source_engine ?self) users = Inr (Some users3)"
    by (simp add: init_def one_table_def)
  have c: "find (\<lambda>c. col_name c = ascii ''email'') (columns users3) = Some (ex_col ''email'')"
    by code_simp
  from synchronous_engine_opens_no_transaction
    [OF a, of "[w_kolonka]" ?self users users3 "ascii ''email''" "ex_col ''email''"] b c
  have d: "add_column db_sync ?self users (ascii ''email'') = (Inl TypeError, ?self, [])"
    by blast
  from synchronous_engine_opens_no_transaction
    [OF a, of "[w_kolonka]" "init kolonka_source kolonka_target"]
  have e: "traffic (snd (snd (correct_schema [w_kolonka] db_sync
        (init kolonka_source kolonka_target)))) = []"
    by blast
  have f: "fst (correct_schema [w_kolonka] db_sync (init kolonka_source kolonka_target))
       = Inl TypeError"
    by code_simp
  from a b c d e f show ?thesis by (intro conjI)
qed


section \<open>Creating a table\<close>

lemma make_and_create_init:
  "make_and_create db (init source target) n t
     = (Inl (if indexes t = [] then AttributeError else ArgumentError), init source target, [])"
  by (simp add: make_and_create_def new_indexes_cases init_def)

lemma make_and_create_no_create:
  "metadata self = None \<Longrightarrow> statements (snd (snd (make_and_create db self n t))) = []"
  by (simp add: make_and_create_def split: sum.splits)

lemma add_table_no_create:
  "metadata self = None \<Longrightarrow> statements (snd (snd (add_table db self n))) = []"
  by (simp add: add_table_def statements_then_print make_and_create_no_create
      split: sum.splits option.splits)

lemma create_table_no_create:
  "metadata self = None \<Longrightarrow> statements (snd (snd (create_table db self n))) = []"
  by (simp add: create_table_def statements_then_print make_and_create_no_create
      split: sum.splits option.splits)

lemma add_column_no_create:
  "\<forall>s\<in>set (statements (snd (snd (add_column db self n c)))). \<not> is_create s"
  by (simp add: add_column_def statements_then_print statements_transaction
      split: sum.splits option.splits)

lemma add_index_no_create:
  "\<forall>s\<in>set (statements (snd (snd (add_index db self n i)))). \<not> is_create s"
  by (simp add: add_index_def statements_then_print statements_transaction
      split: sum.splits option.splits)

lemma correct_one_no_create:
  "metadata self = None
   \<Longrightarrow> \<forall>s\<in>set (statements (snd (snd (correct_one db self diff)))). \<not> is_create s"
  unfolding correct_one_def statements_after_print
  by (simp add: add_table_no_create create_table_no_create add_column_no_create
      add_index_no_create split: sum.splits prod.splits)

lemma correct_loop_no_create:
  "metadata self = None
   \<Longrightarrow> \<forall>s\<in>set (statements (snd (snd (correct_loop db self diffs)))). \<not> is_create s"
proof (induction diffs arbitrary: self)
  case Nil
  show ?case by simp
next
  case (Cons d ds)
  obtain r self' evs where one: "correct_one db self d = (r, self', evs)"
    by (cases "correct_one db self d")
  have "metadata (fst (snd (correct_one db self d))) = metadata self"
    by (rule own_transaction_metadata) (rule own_transaction_correct_one)
  with one Cons.prems have m: "metadata self' = None" by simp
  from correct_one_no_create [OF Cons.prems, of db d] one
  have e: "\<forall>s\<in>set (statements evs). \<not> is_create s" by simp
  from Cons.IH [OF m]
  have r: "\<forall>s\<in>set (statements (snd (snd (correct_loop db self' ds)))). \<not> is_create s" .
  show ?case
    using one e r by (cases r) (auto simp: statements_append split: prod.splits)
qed

text \<open>
  Claim C4, as amended. On an object made by the constructor, \<open>create_table\<close> and
  \<open>add_table\<close>, called for a table that the source has, end with an error before
  anything is sent to the target, with no event at all and the object, and so the
  target, unchanged: \<open>AttributeError\<close> from the read of \<open>self.metadata\<close>, which \<open>__init__\<close>
  never sets, when the table has no index; \<open>ArgumentError\<close> from the construction of
  the first index, one line earlier, when it has one. A run comes to this for a missing
  table whose name has no space in it: it announces the difference and ends with that
  error. And no run of \<open>correct_schema\<close> on such an object ever sends a table creation.
\<close>

theorem create_table_raises_before_sending:
  "(get_table source n = Inr (Some t) \<longrightarrow>
      create_table db (init source target) n
        = (Inl (if indexes t = [] then AttributeError else ArgumentError), init source target, [])
      \<and> add_table db (init source target) n
        = (Inl (if indexes t = [] then AttributeError else ArgumentError), init source target, []))
   \<and> (get_table source n = Inr (Some t) \<and> sp \<notin> set n \<longrightarrow>
      correct_one db (init source target) (msg_table_missing n)
        = (Inl (if indexes t = [] then AttributeError else ArgumentError), init source target,
           [Print (msg_correcting (msg_table_missing n))]))
   \<and> filter is_create (statements (snd (snd (correct_schema names db (init source target))))) = []"
proof -
  have m: "metadata (init source target) = None" by (simp add: init_def)
  have s: "source_engine (init source target) = source" by (simp add: init_def)
  have a: "create_table db (init source target) n
        = (Inl (if indexes t = [] then AttributeError else ArgumentError), init source target, [])"
    if "get_table source n = Inr (Some t)"
    using that by (simp add: create_table_def s make_and_create_init then_print_def)
  have b: "add_table db (init source target) n
        = (Inl (if indexes t = [] then AttributeError else ArgumentError), init source target, [])"
    if "get_table source n = Inr (Some t)"
    using that by (simp add: add_table_def s make_and_create_init then_print_def)
  have c: "correct_one db (init source target) (msg_table_missing n)
        = (Inl (if indexes t = [] then AttributeError else ArgumentError), init source target,
           [Print (msg_correcting (msg_table_missing n))])"
    if "get_table source n = Inr (Some t)" "sp \<notin> set n"
    using that a
    by (simp add: correct_one_def added_not_in_missing missing_in_missing
        last_word_table_missing after_print_def)
  have d: "filter is_create (statements (snd (snd (correct_schema names db (init source target))))) = []"
    using correct_loop_no_create [OF m]
    by (simp add: correct_schema_def statements_then_print filter_empty_conv split: sum.splits)
  from a b c d show ?thesis by blast
qed

theorem create_table_raises_before_sending_witness:
  "get_table (one_table users users3) users = Inr (Some users3)
   \<and> sp \<notin> set users
   \<and> create_table db_sync (init (one_table users users3) no_tables) users
       = (Inl AttributeError, init (one_table users users3) no_tables, [])
   \<and> add_table db_sync (init (one_table users users3) no_tables) users
       = (Inl AttributeError, init (one_table users users3) no_tables, [])
   \<and> correct_one db_sync (init (one_table users users3) no_tables) (msg_table_missing users)
       = (Inl AttributeError, init (one_table users users3) no_tables,
          [Print (msg_correcting (msg_table_missing users))])
   \<and> get_table (one_table users (users_indexed (ascii ''idx_name'') True)) users
       = Inr (Some (users_indexed (ascii ''idx_name'') True))
   \<and> create_table db_sync
         (init (one_table users (users_indexed (ascii ''idx_name'') True)) no_tables) users
       = (Inl ArgumentError,
          init (one_table users (users_indexed (ascii ''idx_name'') True)) no_tables, [])
   \<and> filter is_create (statements (snd (snd
         (correct_schema [users] db_sync (init (one_table users users3) no_tables))))) = []
   \<and> compare_schemas [users] (init (one_table users users3) no_tables)
       = Inr [msg_table_missing users]
   \<and> fst (correct_schema [users] db_sync (init (one_table users users3) no_tables))
       = Inl AttributeError
   \<and> snd (snd (correct_schema [users] db_sync (init (one_table users users3) no_tables)))
       = [Print (msg_correcting (msg_table_missing users))]"
proof -
  let ?t = "users_indexed (ascii ''idx_name'') True"
  have a: "get_table (one_table users users3) users = Inr (Some users3)"
    by (simp add: one_table_def)
  have b: "sp \<notin> set users"
    by code_simp
  have i3: "indexes users3 = []"
    by (simp add: users3_def)
  have a': "get_table (one_table users ?t) users = Inr (Some ?t)"
    by (simp add: one_table_def)
  have it: "indexes ?t \<noteq> []"
    by (simp add: users_indexed_def)
  from create_table_raises_before_sending [of "one_table users users3" users users3 db_sync no_tables "[users]"]
    a b i3
  have c: "create_table db_sync (init (one_table users users3) no_tables) users
       = (Inl AttributeError, init (one_table users users3) no_tables, [])"
    and d: "add_table db_sync (init (one_table users users3) no_tables) users
       = (Inl AttributeError, init (one_table users users3) no_tables, [])"
    and e: "correct_one db_sync (init (one_table users users3) no_tables) (msg_table_missing users)
       = (Inl AttributeError, init (one_table users users3) no_tables,
          [Print (msg_correcting (msg_table_missing users))])"
    and f: "filter is_create (statements (snd (snd
         (correct_schema [users] db_sync (init (one_table users users3) no_tables))))) = []"
    by simp_all
  from create_table_raises_before_sending [of "one_table users ?t" users ?t db_sync no_tables "[users]"]
    a' it
  have g: "create_table db_sync (init (one_table users ?t) no_tables) users
       = (Inl ArgumentError, init (one_table users ?t) no_tables, [])"
    by simp
  have h: "compare_schemas [users] (init (one_table users users3) no_tables)
       = Inr [msg_table_missing users]"
    by code_simp
  have i: "fst (correct_schema [users] db_sync (init (one_table users users3) no_tables))
       = Inl AttributeError"
    by code_simp
  have j: "snd (snd (correct_schema [users] db_sync (init (one_table users users3) no_tables)))
       = [Print (msg_correcting (msg_table_missing users))]"
    by code_simp
  from a b c d e a' g f h i j show ?thesis by (intro conjI)
qed

text \<open>
  Claim C4 as stated fails. The source's table \<open>my table\<close> is missing in the target; the
  run passes the last word of the message, \<open>table\<close>, to \<open>create_table\<close>, which finds no
  such table in the source, prints so and returns: \<open>self.metadata\<close> is not read, no error
  is raised and the run ends normally. And for a table that has an index, the error is
  the \<open>ArgumentError\<close> of the index construction, raised before \<open>self.metadata\<close> is read.
\<close>

theorem create_table_metadata_counterexample:
  "iteration_order (one_table my_table users3) no_tables [my_table]
   \<and> get_table (one_table my_table users3) my_table = Inr (Some users3)
   \<and> compare_schemas [my_table] (init (one_table my_table users3) no_tables)
       = Inr [msg_table_missing my_table]
   \<and> fst (correct_schema [my_table] db_sync (init (one_table my_table users3) no_tables)) = Inr ()
   \<and> snd (snd (correct_schema [my_table] db_sync (init (one_table my_table users3) no_tables)))
       = [Print (msg_correcting (msg_table_missing my_table)),
          Print (msg_table_not_found (ascii ''table'')), Print msg_finished]
   \<and> fst (create_table db_sync
         (init (one_table users (users_indexed (ascii ''idx_name'') True)) no_tables) users)
       = Inl ArgumentError"
  by (intro conjI; code_simp)

section \<open>An action that fails\<close>

lemma correct_loop_abort:
  "correct_loop db self before = (Inr (), self1, evs0)
   \<Longrightarrow> correct_one db self1 diff = (Inl e, self2, evs)
   \<Longrightarrow> correct_loop db self (before @ diff # after) = (Inl e, self2, evs0 @ evs)"
proof (induction before arbitrary: self evs0)
  case Nil
  then show ?case by simp
next
  case (Cons d ds)
  obtain r s' ev where one: "correct_one db self d = (r, s', ev)"
    by (cases "correct_one db self d")
  show ?case
  proof (cases r)
    case (Inl x)
    with one Cons.prems(1) show ?thesis by simp
  next
    case (Inr u)
    obtain r2 s2 ev2 where rest: "correct_loop db s' ds = (r2, s2, ev2)"
      by (cases "correct_loop db s' ds")
    from Cons.prems(1) one Inr rest have eq: "r2 = Inr ()" "s2 = self1" "evs0 = ev @ ev2"
      by simp_all
    from Cons.IH [OF _ Cons.prems(2), of s' ev2 ] rest eq
    have "correct_loop db s' (ds @ diff # after) = (Inl e, self2, ev2 @ evs)" by simp
    with one Inr eq show ?thesis by simp
  qed
qed

text \<open>
  Claim C5, as amended. A failing action ends the run: when the operation for one
  difference raises, \<open>correct_schema\<close> raises that error, the events of the run are
  those up to and including the failing operation, nothing is printed or sent for the
  differences after it (whatever they are), not even the closing message, and the
  failing operation itself leaves the object as it found it. No outcome is recorded.
\<close>

theorem failed_action_aborts_run:
  assumes "compare_schemas names self = Inr (before @ diff # after)"
    and "correct_loop db self before = (Inr (), self1, evs0)"
    and "correct_one db self1 diff = (Inl e, self2, evs)"
  shows "correct_schema names db self = (Inl e, self2, evs0 @ evs) \<and> self2 = self1"
proof -
  from own_transaction_correct_one [of db self1 diff] assms(3)
  have "self2 = self1" by (auto simp: own_transaction_def)
  moreover from correct_loop_abort [OF assms(2,3)] assms(1)
  have "correct_schema names db self = (Inl e, self2, evs0 @ evs)"
    by (simp add: correct_schema_def then_print_def)
  ultimately show ?thesis by simp
qed

theorem failed_action_aborts_run_witness:
  "compare_schemas [w_kolonka] (init kolonka_source kolonka_target)
     = Inr ([] @ msg_column_missing w_kolonka (ascii ''c1'')
              # [msg_column_missing w_kolonka (ascii ''c2'')])
   \<and> fst (correct_one (db_refuse_only add_c1) (init kolonka_source kolonka_target)
        (msg_column_missing w_kolonka (ascii ''c1''))) = Inl ProgrammingError
   \<and> correct_schema [w_kolonka] (db_refuse_only add_c1) (init kolonka_source kolonka_target)
     = (Inl ProgrammingError,
        fst (snd (correct_one (db_refuse_only add_c1) (init kolonka_source kolonka_target)
          (msg_column_missing w_kolonka (ascii ''c1'')))),
        [] @ snd (snd (correct_one (db_refuse_only add_c1) (init kolonka_source kolonka_target)
          (msg_column_missing w_kolonka (ascii ''c1'')))))"
proof -
  let ?self = "init kolonka_source kolonka_target"
  let ?db = "db_refuse_only add_c1"
  let ?d1 = "msg_column_missing w_kolonka (ascii ''c1'')"
  let ?d2 = "msg_column_missing w_kolonka (ascii ''c2'')"
  let ?X = "correct_one ?db ?self ?d1"
  have h1: "compare_schemas [w_kolonka] ?self = Inr ([] @ ?d1 # [?d2])"
    by code_simp
  have h2: "correct_loop ?db ?self [] = (Inr (), ?self, [])"
    by simp
  have a: "fst ?X = Inl ProgrammingError"
    by code_simp
  have "?X = (fst ?X, fst (snd ?X), snd (snd ?X))"
    by simp
  with a have h3: "?X = (Inl ProgrammingError, fst (snd ?X), snd (snd ?X))"
    by simp
  from failed_action_aborts_run [OF h1 h2 h3]
  have r: "correct_schema [w_kolonka] ?db ?self
             = (Inl ProgrammingError, fst (snd ?X), [] @ snd (snd ?X))"
    by (rule conjunct1)
  from h1 a r show ?thesis by (intro conjI)
qed

text \<open>
  Claim C5 as stated fails. The comparison finds two missing columns; the target
  refuses the statement for the first and would accept the one for the second. The run
  ends with the target's error after the first action; the second difference is
  neither announced nor acted on, though on a target that accepts everything both
  statements are sent.
\<close>

theorem failed_action_continues_counterexample:
  "iteration_order kolonka_source kolonka_target [w_kolonka]
   \<and> compare_schemas [w_kolonka] (init kolonka_source kolonka_target)
       = Inr [msg_column_missing w_kolonka (ascii ''c1''),
              msg_column_missing w_kolonka (ascii ''c2'')]
   \<and> fst (correct_schema [w_kolonka] (db_refuse_only add_c1)
        (init kolonka_source kolonka_target)) = Inl ProgrammingError
   \<and> snd (snd (correct_schema [w_kolonka] (db_refuse_only add_c1)
        (init kolonka_source kolonka_target)))
       = [Print (msg_correcting (msg_column_missing w_kolonka (ascii ''c1''))),
          Begin, Execute add_c1, Rollback]
   \<and> \<not> isl (execute (db_refuse_only add_c1) add_c2 kolonka_target)
   \<and> statements (snd (snd (correct_schema [w_kolonka] db_accept
        (init kolonka_source kolonka_target)))) = [add_c1, add_c2]"
  by (intro conjI; code_simp)


section \<open>The two table differences\<close>

lemma add_create_same:
  "fst (add_table db self n) = fst (create_table db self n)
   \<and> fst (snd (add_table db self n)) = fst (snd (create_table db self n))
   \<and> traffic (snd (snd (add_table db self n))) = traffic (snd (snd (create_table db self n)))"
  by (simp add: add_table_def create_table_def then_print_fst then_print_self then_print_traffic
      split: sum.splits option.splits)

lemma table_absent_from_source:
  "get_table (source_engine self) n = Inr None
   \<Longrightarrow> add_table db self n = (Inr (), self, [Print (msg_table_not_found n)])
     \<and> create_table db self n = (Inr (), self, [Print (msg_table_not_found n)])"
  by (simp add: add_table_def create_table_def)

lemma correct_one_table_added:
  "get_table (source_engine self) n = Inr None \<Longrightarrow> sp \<notin> set n
   \<Longrightarrow> correct_one db self (msg_table_added n)
       = (Inr (), self, [Print (msg_correcting (msg_table_added n)),
                         Print (msg_table_not_found n)])"
  by (simp add: correct_one_def added_in_added last_word_table_added table_absent_from_source
      after_print_def)

text \<open>
  Claim C3, as amended. The two kinds of table difference are handled by operations
  with the same effect: \<open>add_table\<close> and \<open>create_table\<close> end with the same result, leave
  the same object and have the same traffic with the target (they differ in the line
  printed at the end). Each looks the table up in the source. For a table the source
  does not have, it prints that the table was not found, sends nothing and leaves the
  target unchanged: no table is created. This is what a run does for a table that
  exists only in the target (and whose name has no space in it): it announces the
  difference, prints that the table was not found and goes on.
\<close>

theorem table_operations_same_effect:
  "fst (add_table db self n) = fst (create_table db self n)
   \<and> fst (snd (add_table db self n)) = fst (snd (create_table db self n))
   \<and> traffic (snd (snd (add_table db self n))) = traffic (snd (snd (create_table db self n)))
   \<and> (get_table (source_engine self) n = Inr None \<longrightarrow>
        add_table db self n = (Inr (), self, [Print (msg_table_not_found n)])
        \<and> create_table db self n = (Inr (), self, [Print (msg_table_not_found n)]))
   \<and> (get_table (source_engine self) n = Inr None \<and> sp \<notin> set n \<longrightarrow>
        correct_one db self (msg_table_added n)
          = (Inr (), self, [Print (msg_correcting (msg_table_added n)),
                            Print (msg_table_not_found n)]))"
  using add_create_same [of db self n] table_absent_from_source [of self n db]
    correct_one_table_added [of self n db]
  by blast

theorem table_operations_same_effect_witness:
  "get_table (source_engine (init no_tables (one_table orders users2))) orders = Inr None
   \<and> sp \<notin> set orders
   \<and> add_table db_sync (init no_tables (one_table orders users2)) orders
       = (Inr (), init no_tables (one_table orders users2), [Print (msg_table_not_found orders)])
   \<and> create_table db_sync (init no_tables (one_table orders users2)) orders
       = (Inr (), init no_tables (one_table orders users2), [Print (msg_table_not_found orders)])
   \<and> correct_one db_sync (init no_tables (one_table orders users2)) (msg_table_added orders)
       = (Inr (), init no_tables (one_table orders users2),
          [Print (msg_correcting (msg_table_added orders)), Print (msg_table_not_found orders)])"
proof -
  let ?s1 = "init no_tables (one_table orders users2)"
  have a: "get_table (source_engine ?s1) orders = Inr None"
    by (simp add: init_def no_tables_def)
  have b: "sp \<notin> set orders"
    by code_simp
  from table_operations_same_effect [of db_sync ?s1 orders] a b
  have c: "add_table db_sync ?s1 orders = (Inr (), ?s1, [Print (msg_table_not_found orders)])"
    and d: "create_table db_sync ?s1 orders = (Inr (), ?s1, [Print (msg_table_not_found orders)])"
    and e: "correct_one db_sync ?s1 (msg_table_added orders)
       = (Inr (), ?s1,
          [Print (msg_correcting (msg_table_added orders)), Print (msg_table_not_found orders)])"
    by blast+
  from a b c d e show ?thesis by (intro conjI)
qed

text \<open>
  Claim C3 as stated fails. The table \<open>orders\<close> exists only in the target; the
  difference is reported, the operation finds no such table in the source, and the run
  ends normally having sent nothing to the target, also on an object that has a
  \<open>metadata\<close> attribute. No table creation is executed for this kind of difference.
\<close>

theorem table_only_in_target_counterexample:
  "iteration_order no_tables (one_table orders users2) [orders]
   \<and> compare_schemas [orders] (init no_tables (one_table orders users2))
       = Inr [msg_table_added orders]
   \<and> fst (correct_schema [orders] db_accept (init no_tables (one_table orders users2))) = Inr ()
   \<and> snd (snd (correct_schema [orders] db_accept (init no_tables (one_table orders users2))))
       = [Print (msg_correcting (msg_table_added orders)),
          Print (msg_table_not_found orders), Print msg_finished]
   \<and> snd (snd (correct_schema [orders] db_accept
        ((init no_tables (one_table orders users2))\<lparr>metadata := Some MetaData\<rparr>)))
       = [Print (msg_correcting (msg_table_added orders)),
          Print (msg_table_not_found orders), Print msg_finished]
   \<and> statements (snd (snd (correct_schema [orders] db_accept
        ((init no_tables (one_table orders users2))\<lparr>metadata := Some MetaData\<rparr>)))) = []"
  by (intro conjI; code_simp)


section \<open>The text sent for an index and for a column\<close>

lemma add_index_statements:
  "get_table (source_engine self) table_name = Inr (Some t)
   \<Longrightarrow> find (\<lambda>i. idx_name i = iname) (indexes t) = Some idx
   \<Longrightarrow> statements (snd (snd (add_index db self table_name iname)))
       = (case async_with_begin db of
            None \<Rightarrow> [Text (create_index_sql table_name iname idx)]
          | Some e \<Rightarrow> [])"
  by (simp add: add_index_def statements_then_print statements_transaction)

lemma add_column_statements:
  "get_table (source_engine self) table_name = Inr (Some t)
   \<Longrightarrow> find (\<lambda>c. col_name c = cname) (columns t) = Some col
   \<Longrightarrow> statements (snd (snd (add_column db self table_name cname)))
       = (case async_with_begin db of
            None \<Rightarrow> [Text (alter_table_sql table_name (compile_column db col))]
          | Some e \<Rightarrow> [])"
  by (simp add: add_column_def statements_then_print statements_transaction)

text \<open>
  Claim C9, as amended. For a table and an index that the source has, \<open>add_index\<close>
  sends at most one statement. When entering the \<open>begin()\<close> block raises, as it does on
  the synchronous engine that \<open>__init__\<close> creates, it sends none. Otherwise it sends
  the text \<open>CREATE INDEX\<close> with the index name as given, \<open>ON\<close> with the table name as
  given, and in parentheses the names of the index's columns in their order, separated
  by a comma and a space. The uniqueness flag is not part of it: the text is the same
  whatever the flag.
\<close>

theorem add_index_statement_text:
  assumes "get_table (source_engine self) table_name = Inr (Some t)"
    and "find (\<lambda>i. idx_name i = iname) (indexes t) = Some idx"
  shows "statements (snd (snd (add_index db self table_name iname)))
      = (case async_with_begin db of
           Some e \<Rightarrow> []
         | None \<Rightarrow>
             [Text ([nl] @ replicate 16 sp @ ascii ''CREATE INDEX '' @ iname
                    @ [nl] @ replicate 16 sp @ ascii ''ON '' @ table_name @ ascii '' (''
                    @ join (ascii '', '') (map col_name (idx_columns idx)) @ ascii '')''
                    @ [nl] @ replicate 12 sp)])
    \<and> create_index_sql table_name iname (idx\<lparr>idx_unique := u\<rparr>)
      = create_index_sql table_name iname idx"
  using add_index_statements [OF assms, of db]
  by (simp add: create_index_sql_def split: option.splits)

theorem add_index_statement_text_witness:
  "get_table (source_engine
      (init (one_table users (users_indexed (ascii ''idx_name'') True)) (one_table users users2)))
      users = Inr (Some (users_indexed (ascii ''idx_name'') True))
   \<and> find (\<lambda>i. idx_name i = ascii ''idx_name'')
         (indexes (users_indexed (ascii ''idx_name'') True))
       = Some (ex_idx (ascii ''idx_name'') True)
   \<and> statements (snd (snd (add_index db_sync
         (init (one_table users (users_indexed (ascii ''idx_name'') True)) (one_table users users2))
         users (ascii ''idx_name'')))) = []
   \<and> statements (snd (snd (add_index db_accept
         (init (one_table users (users_indexed (ascii ''idx_name'') True)) (one_table users users2))
         users (ascii ''idx_name''))))
      = [Text ([nl] @ replicate 16 sp @ ascii ''CREATE INDEX '' @ ascii ''idx_name''
               @ [nl] @ replicate 16 sp @ ascii ''ON '' @ users @ ascii '' (''
               @ join (ascii '', '') (map col_name (idx_columns (ex_idx (ascii ''idx_name'') True)))
               @ ascii '')'' @ [nl] @ replicate 12 sp)]
   \<and> join (ascii '', '') (map col_name (idx_columns (ex_idx (ascii ''idx_name'') True)))
      = ascii ''name, id''"
proof -
  let ?t = "users_indexed (ascii ''idx_name'') True"
  let ?self = "init (one_table users ?t) (one_table users users2)"
  have a: "get_table (source_engine ?self) users = Inr (Some ?t)"
    by (simp add: init_def one_table_def)
  have b: "find (\<lambda>i. idx_name i = ascii ''idx_name'') (indexes ?t)
       = Some (ex_idx (ascii ''idx_name'') True)"
    by (simp add: users_indexed_def ex_idx_def)
  have c: "join (ascii '', '') (map col_name (idx_columns (ex_idx (ascii ''idx_name'') True)))
      = ascii ''name, id''"
    by code_simp
  from add_index_statement_text [OF a b, of db_sync]
  have d: "statements (snd (snd (add_index db_sync ?self users (ascii ''idx_name'')))) = []"
    by (simp add: db_sync_def)
  from add_index_statement_text [OF a b, of db_accept]
  have e: "statements (snd (snd (add_index db_accept ?self users (ascii ''idx_name''))))
      = [Text ([nl] @ replicate 16 sp @ ascii ''CREATE INDEX '' @ ascii ''idx_name''
               @ [nl] @ replicate 16 sp @ ascii ''ON '' @ users @ ascii '' (''
               @ join (ascii '', '') (map col_name (idx_columns (ex_idx (ascii ''idx_name'') True)))
               @ ascii '')'' @ [nl] @ replicate 12 sp)]"
    by (simp add: db_accept_def)
  from a b d e c show ?thesis by (intro conjI)
qed

text \<open>
  Claim C9 as stated fails. The source's index is unique. On the synchronous engine
  that \<open>__init__\<close> creates, \<open>add_index\<close> for it ends with \<open>TypeError\<close> and no statement is
  sent at all. On an engine whose block is entered, the statement sent for it is the
  one sent for the same index when it is not unique, and the word \<open>UNIQUE\<close> does not
  occur in it.
\<close>

theorem index_uniqueness_counterexample:
  "idx_unique (ex_idx (ascii ''idx_name'') True)
   \<and> find (\<lambda>i. idx_name i = ascii ''idx_name'')
         (indexes (users_indexed (ascii ''idx_name'') True))
       = Some (ex_idx (ascii ''idx_name'') True)
   \<and> fst (add_index db_sync
         (init (one_table users (users_indexed (ascii ''idx_name'') True)) (one_table users users2))
         users (ascii ''idx_name'')) = Inl TypeError
   \<and> snd (snd (add_index db_sync
         (init (one_table users (users_indexed (ascii ''idx_name'') True)) (one_table users users2))
         users (ascii ''idx_name''))) = []
   \<and> fst (add_index db_accept
         (init (one_table users (users_indexed (ascii ''idx_name'') True)) (one_table users users2))
         users (ascii ''idx_name'')) = Inr ()
   \<and> statements (snd (snd (add_index db_accept
         (init (one_table users (users_indexed (ascii ''idx_name'') True)) (one_table users users2))
         users (ascii ''idx_name''))))
      = [Text (create_index_sql users (ascii ''idx_name'') (ex_idx (ascii ''idx_name'') True))]
   \<and> statements (snd (snd (add_index db_accept
         (init (one_table users (users_indexed (ascii ''idx_name'') True)) (one_table users users2))
         users (ascii ''idx_name''))))
      = statements (snd (snd (add_index db_accept
         (init (one_table users (users_indexed (ascii ''idx_name'') False)) (one_table users users2))
         users (ascii ''idx_name''))))
   \<and> \<not> py_in (ascii ''UNIQUE'')
         (create_index_sql users (ascii ''idx_name'') (ex_idx (ascii ''idx_name'') True))"
  by (intro conjI; code_simp)

lemma py_in_create_index_sql:
  "py_in table_name (create_index_sql table_name iname idx)
   \<and> py_in iname (create_index_sql table_name iname idx)
   \<and> (\<forall>c\<in>set (idx_columns idx). py_in (col_name c) (create_index_sql table_name iname idx))"
proof -
  let ?cols = "join (ascii '', '') (map col_name (idx_columns idx))"
  let ?tail = "[nl] @ replicate 12 sp"
  have a: "create_index_sql table_name iname idx
      = ([nl] @ replicate 16 sp @ ascii ''CREATE INDEX '' @ iname @ [nl] @ replicate 16 sp
          @ ascii ''ON '') @ table_name @ (ascii '' ('' @ ?cols @ ascii '')'' @ ?tail)"
    by (simp add: create_index_sql_def)
  have b: "create_index_sql table_name iname idx
      = ([nl] @ replicate 16 sp @ ascii ''CREATE INDEX '') @ iname @ ([nl] @ replicate 16 sp
          @ ascii ''ON '' @ table_name @ ascii '' ('' @ ?cols @ ascii '')'' @ ?tail)"
    by (simp add: create_index_sql_def)
  have c: "create_index_sql table_name iname idx
      = ([nl] @ replicate 16 sp @ ascii ''CREATE INDEX '' @ iname @ [nl] @ replicate 16 sp
          @ ascii ''ON '' @ table_name @ ascii '' ('') @ ?cols @ (ascii '')'' @ ?tail)"
    by (simp add: create_index_sql_def)
  have "py_in table_name (create_index_sql table_name iname idx)"
    by (subst a) (rule py_in_middle)
  moreover have "py_in iname (create_index_sql table_name iname idx)"
    by (subst b) (rule py_in_middle)
  moreover have "\<forall>c\<in>set (idx_columns idx). py_in (col_name c) (create_index_sql table_name iname idx)"
  proof
    fix x assume "x \<in> set (idx_columns idx)"
    then have "py_in (col_name x) ?cols" by (intro py_in_join) simp
    then obtain p q where "?cols = p @ col_name x @ q" unfolding py_in_iff by blast
    then have "create_index_sql table_name iname idx
      = (([nl] @ replicate 16 sp @ ascii ''CREATE INDEX '' @ iname @ [nl] @ replicate 16 sp
          @ ascii ''ON '' @ table_name @ ascii '' ('') @ p) @ col_name x @ (q @ ascii '')'' @ ?tail)"
      by (subst c) simp
    then show "py_in (col_name x) (create_index_sql table_name iname idx)"
      using py_in_middle by metis
  qed
  ultimately show ?thesis by blast
qed

lemma py_in_alter_table_sql: "py_in table_name (alter_table_sql table_name compiled)"
proof -
  have "alter_table_sql table_name compiled
      = ([nl] @ replicate 16 sp @ ascii ''ALTER TABLE '') @ table_name
        @ ([nl] @ replicate 16 sp @ ascii ''ADD COLUMN '' @ compiled @ [nl] @ replicate 12 sp)"
    by (simp add: alter_table_sql_def)
  then show ?thesis using py_in_middle by metis
qed

lemma add_index_result:
  "get_table (source_engine self) table_name = Inr (Some t)
   \<Longrightarrow> find (\<lambda>i. idx_name i = iname) (indexes t) = Some idx
   \<Longrightarrow> fst (add_index db self table_name iname)
       = (case async_with_begin db of
            Some e \<Rightarrow> Inl e
          | None \<Rightarrow>
              (case execute db (Text (create_index_sql table_name iname idx)) (target_engine self) of
                 Inl e \<Rightarrow> Inl e | Inr target' \<Rightarrow> Inr ()))"
  by (simp add: add_index_def then_print_def transaction_def split: sum.splits option.splits)

lemma add_column_result:
  "get_table (source_engine self) table_name = Inr (Some t)
   \<Longrightarrow> find (\<lambda>c. col_name c = cname) (columns t) = Some col
   \<Longrightarrow> fst (add_column db self table_name cname)
       = (case async_with_begin db of
            Some e \<Rightarrow> Inl e
          | None \<Rightarrow>
              (case execute db (Text (alter_table_sql table_name (compile_column db col)))
                      (target_engine self) of
                 Inl e \<Rightarrow> Inl e | Inr target' \<Rightarrow> Inr ()))"
  by (simp add: add_column_def then_print_def transaction_def split: sum.splits option.splits)

text \<open>
  Claim C10, as amended. No name is checked and no action is rejected for its names.
  For a table and an index that the source has, the result of \<open>add_index\<close> is the error
  of entering the \<open>begin()\<close> block when entering raises (as on the synchronous engine
  that \<open>__init__\<close> creates, where nothing is sent), and otherwise it is what the target
  answers to the statement; every statement it sends is a text that contains the table
  name, the index name and every column name of the index as they are, whatever
  characters they are made of. The same holds of \<open>add_column\<close> for a table and a column
  that the source has, with the table name.
\<close>

theorem names_never_checked:
  "(get_table (source_engine self) table_name = Inr (Some t)
      \<and> find (\<lambda>i. idx_name i = iname) (indexes t) = Some idx \<longrightarrow>
      fst (add_index db self table_name iname)
        = (case async_with_begin db of
             Some e \<Rightarrow> Inl e
           | None \<Rightarrow>
               (case execute db (Text (create_index_sql table_name iname idx)) (target_engine self) of
                  Inl e \<Rightarrow> Inl e | Inr target' \<Rightarrow> Inr ()))
      \<and> (\<forall>s\<in>set (statements (snd (snd (add_index db self table_name iname)))).
            \<exists>sql. s = Text sql \<and> py_in table_name sql \<and> py_in iname sql
              \<and> (\<forall>c\<in>set (idx_columns idx). py_in (col_name c) sql)))
   \<and> (get_table (source_engine self) table_name = Inr (Some t)
      \<and> find (\<lambda>c. col_name c = cname) (columns t) = Some col \<longrightarrow>
      fst (add_column db self table_name cname)
        = (case async_with_begin db of
             Some e \<Rightarrow> Inl e
           | None \<Rightarrow>
               (case execute db (Text (alter_table_sql table_name (compile_column db col)))
                       (target_engine self) of
                  Inl e \<Rightarrow> Inl e | Inr target' \<Rightarrow> Inr ()))
      \<and> (\<forall>s\<in>set (statements (snd (snd (add_column db self table_name cname)))).
            \<exists>sql. s = Text sql \<and> py_in table_name sql))"
proof (intro conjI impI)
  assume h: "get_table (source_engine self) table_name = Inr (Some t)
      \<and> find (\<lambda>i. idx_name i = iname) (indexes t) = Some idx"
  then have a: "get_table (source_engine self) table_name = Inr (Some t)"
    and b: "find (\<lambda>i. idx_name i = iname) (indexes t) = Some idx" by simp_all
  show "fst (add_index db self table_name iname)
        = (case async_with_begin db of
             Some e \<Rightarrow> Inl e
           | None \<Rightarrow>
               (case execute db (Text (create_index_sql table_name iname idx)) (target_engine self) of
                  Inl e \<Rightarrow> Inl e | Inr target' \<Rightarrow> Inr ()))"
    using a b by (rule add_index_result)
  show "\<forall>s\<in>set (statements (snd (snd (add_index db self table_name iname)))).
            \<exists>sql. s = Text sql \<and> py_in table_name sql \<and> py_in iname sql
              \<and> (\<forall>c\<in>set (idx_columns idx). py_in (col_name c) sql)"
    using add_index_statements [OF a b, of db] py_in_create_index_sql [of table_name iname idx]
    by (cases "async_with_begin db") simp_all
next
  assume h: "get_table (source_engine self) table_name = Inr (Some t)
      \<and> find (\<lambda>c. col_name c = cname) (columns t) = Some col"
  then have a: "get_table (source_engine self) table_name = Inr (Some t)"
    and b: "find (\<lambda>c. col_name c = cname) (columns t) = Some col" by simp_all
  show "fst (add_column db self table_name cname)
        = (case async_with_begin db of
             Some e \<Rightarrow> Inl e
           | None \<Rightarrow>
               (case execute db (Text (alter_table_sql table_name (compile_column db col)))
                       (target_engine self) of
                  Inl e \<Rightarrow> Inl e | Inr target' \<Rightarrow> Inr ()))"
    using a b by (rule add_column_result)
  show "\<forall>s\<in>set (statements (snd (snd (add_column db self table_name cname)))).
            \<exists>sql. s = Text sql \<and> py_in table_name sql"
    using add_column_statements [OF a b, of db]
      py_in_alter_table_sql [of table_name "compile_column db col"]
    by (cases "async_with_begin db") simp_all
qed

theorem names_never_checked_witness:
  "get_table (source_engine (init indeks_source indeks_target)) w_indeks
     = Inr (Some (users_indexed quoted_name False))
   \<and> find (\<lambda>i. idx_name i = quoted_name) (indexes (users_indexed quoted_name False))
     = Some (ex_idx quoted_name False)
   \<and> find (\<lambda>c. col_name c = ascii ''id'') (columns (users_indexed quoted_name False))
     = Some (ex_col ''id'')
   \<and> fst (add_index db_sync (init indeks_source indeks_target) w_indeks quoted_name)
     = Inl TypeError
   \<and> fst (add_column db_sync (init indeks_source indeks_target) w_indeks (ascii ''id''))
     = Inl TypeError
   \<and> statements (snd (snd (add_index db_accept (init indeks_source indeks_target)
        w_indeks quoted_name)))
     = [Text (create_index_sql w_indeks quoted_name (ex_idx quoted_name False))]
   \<and> py_in w_indeks (create_index_sql w_indeks quoted_name (ex_idx quoted_name False))
   \<and> py_in quoted_name (create_index_sql w_indeks quoted_name (ex_idx quoted_name False))"
proof -
  let ?self = "init indeks_source indeks_target"
  let ?t = "users_indexed quoted_name False"
  let ?sql = "create_index_sql w_indeks quoted_name (ex_idx quoted_name False)"
  have a: "get_table (source_engine ?self) w_indeks = Inr (Some ?t)"
    by (simp add: init_def indeks_source_def one_table_def)
  have b: "find (\<lambda>i. idx_name i = quoted_name) (indexes ?t) = Some (ex_idx quoted_name False)"
    by (simp add: users_indexed_def ex_idx_def)
  have c: "find (\<lambda>c. col_name c = ascii ''id'') (columns ?t) = Some (ex_col ''id'')"
    by (simp add: users_indexed_def ex_col_def)
  from names_never_checked
    [of ?self w_indeks ?t quoted_name "ex_idx quoted_name False" db_sync "ascii ''id''" "ex_col ''id''"]
    a b c
  have d: "fst (add_index db_sync ?self w_indeks quoted_name) = Inl TypeError"
    and e: "fst (add_column db_sync ?self w_indeks (ascii ''id'')) = Inl TypeError"
    by (simp_all add: db_sync_def)
  have f: "statements (snd (snd (add_index db_accept ?self w_indeks quoted_name))) = [Text ?sql]"
    by code_simp
  from names_never_checked
    [of ?self w_indeks ?t quoted_name "ex_idx quoted_name False" db_accept "ascii ''id''" "ex_col ''id''"]
    a b
  have "\<forall>s\<in>set (statements (snd (snd (add_index db_accept ?self w_indeks quoted_name)))).
          \<exists>sql. s = Text sql \<and> py_in w_indeks sql \<and> py_in quoted_name sql
            \<and> (\<forall>c\<in>set (idx_columns (ex_idx quoted_name False)). py_in (col_name c) sql)"
    by blast
  with f have g: "py_in w_indeks ?sql" and h: "py_in quoted_name ?sql"
    by simp_all
  from a b c d e f g h show ?thesis by (intro conjI)
qed

text \<open>
  Claim C10 as stated fails. The source's index is named with a double quote and a
  semicolon. A run that finds it missing is not refused: on the synchronous engine that
  \<open>__init__\<close> creates it prints that a table was not found and ends normally; and the
  operation called for that index ends as it does for a plainly named one, with the
  \<open>TypeError\<close> of the block. On an engine whose block is entered, the statement with the
  name in it as it is goes to the target.
\<close>

theorem unsafe_name_not_rejected_counterexample:
  "iteration_order (one_table users (users_indexed quoted_name False)) (one_table users users2)
     [users]
   \<and> compare_schemas [users]
        (init (one_table users (users_indexed quoted_name False)) (one_table users users2))
       = Inr [msg_index_missing users quoted_name]
   \<and> fst (correct_schema [users] db_sync
        (init (one_table users (users_indexed quoted_name False)) (one_table users users2)))
       = Inr ()
   \<and> snd (snd (correct_schema [users] db_sync
        (init (one_table users (users_indexed quoted_name False)) (one_table users users2))))
       = [Print (msg_correcting (msg_index_missing users quoted_name)),
          Print (msg_table_not_found w_indeks), Print msg_finished]
   \<and> fst (add_index db_sync
         (init (one_table users (users_indexed quoted_name False)) (one_table users users2))
         users quoted_name) = Inl TypeError
   \<and> fst (add_index db_sync
         (init (one_table users (users_indexed (ascii ''idx_name'') False)) (one_table users users2))
         users (ascii ''idx_name'')) = Inl TypeError
   \<and> iteration_order indeks_source indeks_target [w_indeks]
   \<and> fst (correct_schema [w_indeks] db_accept (init indeks_source indeks_target)) = Inr ()
   \<and> traffic (snd (snd (correct_schema [w_indeks] db_accept (init indeks_source indeks_target))))
       = [Begin,
          Execute (Text (create_index_sql w_indeks quoted_name (ex_idx quoted_name False))),
          Commit]
   \<and> py_in quoted_name (create_index_sql w_indeks quoted_name (ex_idx quoted_name False))"
  by (intro conjI; code_simp)

section \<open>A run that leaves the difference in place\<close>

lemma correct_loop_unchanged:
  "Commit \<notin> set (snd (snd (correct_loop db self diffs)))
   \<Longrightarrow> fst (snd (correct_loop db self diffs)) = self"
proof (induction diffs arbitrary: self)
  case Nil
  show ?case by simp
next
  case (Cons d ds)
  obtain r self' evs where one: "correct_one db self d = (r, self', evs)"
    by (cases "correct_one db self d")
  obtain r2 self2 evs2 where rest: "correct_loop db self' ds = (r2, self2, evs2)"
    by (cases "correct_loop db self' ds")
  from Cons.prems one rest have nc: "Commit \<notin> set evs"
    by (cases r) auto
  have tr: "Commit \<notin> set (traffic evs)"
    using nc by (induction evs rule: traffic.induct) auto
  from own_transaction_correct_one [of db self d] one tr have same: "self' = self"
    by (auto simp: own_transaction_def)
  show ?case
  proof (cases r)
    case (Inl e)
    with one same show ?thesis by simp
  next
    case (Inr u)
    with Cons.prems one rest have "Commit \<notin> set evs2" by simp
    with Cons.IH [of self'] rest have "self2 = self'" by simp
    with one rest Inr same show ?thesis by simp
  qed
qed

lemma correct_schema_unchanged:
  "Commit \<notin> set (snd (snd (correct_schema names db self)))
   \<Longrightarrow> fst (snd (correct_schema names db self)) = self"
proof (cases "compare_schemas names self")
  case (Inl e)
  then show ?thesis by (simp add: correct_schema_def)
next
  case (Inr ds)
  assume nc: "Commit \<notin> set (snd (snd (correct_schema names db self)))"
  obtain r s evs where l: "correct_loop db self ds = (r, s, evs)"
    by (cases "correct_loop db self ds")
  from nc Inr l have "Commit \<notin> set evs"
    by (cases r) (auto simp: correct_schema_def then_print_def)
  with correct_loop_unchanged [of db self ds] l have "s = self" by simp
  with Inr l show ?thesis
    by (cases r) (simp_all add: correct_schema_def then_print_def)
qed

text \<open>
  Claim C1 fails on the code. The source's table \<open>users\<close> has the column \<open>email\<close>, the
  target's has not. The comparison reports the column; \<open>correct_schema\<close> takes the last
  two words of the message, which are the word for \<open>column\<close> and the column name, and
  calls \<open>add_column\<close> for a table of that name; the source has none, so the run ends
  normally having sent nothing, on any target system. The target is as before and a
  second comparison reports the same column.
\<close>

theorem missing_column_survives_correction:
  "iteration_order (one_table users users3) (one_table users users2) [users]
   \<and> compare_schemas [users] (init (one_table users users3) (one_table users users2))
       = Inr [msg_column_missing users (ascii ''email'')]
   \<and> last_two_words (msg_column_missing users (ascii ''email''))
       = Inr (w_kolonka, ascii ''email'')
   \<and> correct_schema [users] db (init (one_table users users3) (one_table users users2))
       = (Inr (), init (one_table users users3) (one_table users users2),
          [Print (msg_correcting (msg_column_missing users (ascii ''email''))),
           Print (msg_table_not_found w_kolonka), Print msg_finished])
   \<and> compare_schemas [users]
        (fst (snd (correct_schema [users] db
           (init (one_table users users3) (one_table users users2)))))
       = Inr [msg_column_missing users (ascii ''email'')]"
proof -
  let ?self = "init (one_table users users3) (one_table users users2)"
  let ?run = "correct_schema [users] db ?self"
  have a: "iteration_order (one_table users users3) (one_table users users2) [users]"
    by code_simp
  have b: "compare_schemas [users] ?self = Inr [msg_column_missing users (ascii ''email'')]"
    by code_simp
  have c: "last_two_words (msg_column_missing users (ascii ''email''))
       = Inr (w_kolonka, ascii ''email'')"
    by code_simp
  have d: "fst ?run = Inr ()"
    by code_simp
  have e: "snd (snd ?run)
       = [Print (msg_correcting (msg_column_missing users (ascii ''email''))),
          Print (msg_table_not_found w_kolonka), Print msg_finished]"
    by code_simp
  have f: "fst (snd ?run) = ?self"
    by (rule correct_schema_unchanged) (simp add: e)
  have "?run = (fst ?run, fst (snd ?run), snd (snd ?run))"
    by simp
  with d e f have g: "?run = (Inr (), ?self,
          [Print (msg_correcting (msg_column_missing users (ascii ''email''))),
           Print (msg_table_not_found w_kolonka), Print msg_finished])"
    by simp
  from b f have h: "compare_schemas [users] (fst (snd ?run))
       = Inr [msg_column_missing users (ascii ''email'')]"
    by simp
  from a b c g h show ?thesis by (intro conjI)
qed

end
